theory Spec2Isabelle
  imports Main "HOL-Library.AList"
begin

section \<open>JavaScript strings, numbers and byte arrays\<close>

text \<open>
  The enclave is TypeScript. Hashes, addresses, signatures and byte strings are JavaScript
  strings of hexadecimal digits behind a \<open>0x\<close> prefix; they are modelled as \<open>string\<close>.
  A \<open>bigint\<close> is an \<open>int\<close>; a \<open>number\<close> that holds a chain id, a timestamp or a
  duration is an \<open>int\<close> as well (the model covers integral numbers only). A
  \<open>Uint8Array\<close> is a list of integers from 0 to 255.
\<close>

type_synonym bytes = "int list"

datatype LockStatus = PENDING | ACTIVE | FULFILLED | SETTLED | EXPIRED | CANCELLED

datatype AssetType = native | erc20 | erc721 | erc1155

text \<open>
  Every \<open>throw\<close> of the enclave is an \<open>Error\<close> with a message; the constructors
  below name the messages. \<open>LibraryError\<close> stands for an exception raised by a built-in
  or by a library call (\<open>hexToBytes\<close> on a string that is not hexadecimal, \<open>BigInt\<close>
  on a string that is no integer literal, a \<open>TypeError\<close>, a failure inside secp256k1).
\<close>

datatype error =
    LockNotFound
  | InvalidLockStatus LockStatus
  | InvalidSignature
  | InvalidLockStatusForFulfillment LockStatus
  | LockExpired
  | InvalidTransactionHash
  | InvalidBlockHash
  | UnsupportedAssetTypeForSettlement AssetType
  | CannotCancelLockInStatus LockStatus
  | InvalidCancellationSignature
  | UnsupportedChain int
  | ContractAddressRequired
  | AmountMustBePositive
  | AmountExceedsSingleLockLimit
  | DurationTooShort
  | DurationTooLong
  | TooManyConcurrentLocks
  | TotalLockedAmountExceedsLimit
  | DailyVolumeLimitExceeded
  | LibraryError

text \<open>Sequencing of computations that may throw.\<close>

definition ebind :: "error + 'a \<Rightarrow> ('a \<Rightarrow> error + 'b) \<Rightarrow> error + 'b" where
  "ebind m f = (case m of Inl e \<Rightarrow> Inl e | Inr x \<Rightarrow> f x)"

text \<open>The values handed to \<open>abiEncode\<close> and \<open>encodePacked\<close> (\<open>any[]\<close> in the source).\<close>

datatype js_value = JStr string | JInt int | JBool bool | JUndefined

subsection \<open>String methods\<close>

definition toLowerCase_char :: "char \<Rightarrow> char" where
  "toLowerCase_char c =
     (let n = (of_char c :: int) in if 65 \<le> n \<and> n \<le> 90 then char_of (n + 32) else c)"

definition toLowerCase :: "string \<Rightarrow> string" where
  "toLowerCase s = map toLowerCase_char s"

definition padStart :: "nat \<Rightarrow> char \<Rightarrow> string \<Rightarrow> string" where
  "padStart n c s = replicate (n - length s) c @ s"

definition padEnd :: "nat \<Rightarrow> char \<Rightarrow> string \<Rightarrow> string" where
  "padEnd n c s = s @ replicate (n - length s) c"

definition startsWith_0x :: "string \<Rightarrow> bool" where
  "startsWith_0x s = (take 2 s = ''0x'')"

text \<open>\<open>s.replace('0x', '')\<close>: the first occurrence of \<open>0x\<close> is removed, wherever it is.\<close>

fun replace_0x :: "string \<Rightarrow> string" where
  "replace_0x (a # b # rest) =
     (if a = CHR ''0'' \<and> b = CHR ''x'' then rest else a # replace_0x (b # rest))"
| "replace_0x s = s"

text \<open>\<open>a < b\<close> on strings: lexicographic on the code units.\<close>

fun js_lt :: "string \<Rightarrow> string \<Rightarrow> bool" where
  "js_lt [] [] = False"
| "js_lt [] (y # ys) = True"
| "js_lt (x # xs) [] = False"
| "js_lt (x # xs) (y # ys) =
     (if x = y then js_lt xs ys else (of_char x :: int) < of_char y)"

subsection \<open>Hexadecimal\<close>

definition hexdigit :: "int \<Rightarrow> char" where
  "hexdigit n = ''0123456789abcdef'' ! nat (n mod 16)"

text \<open>\<open>n.toString(16)\<close> for a non-negative integer.\<close>

function hex_of_int :: "int \<Rightarrow> string" where
  "hex_of_int n =
     (if n < 16 then [hexdigit n] else hex_of_int (n div 16) @ [hexdigit (n mod 16)])"
  by pat_completeness auto
termination
  by (relation "measure nat") auto

declare hex_of_int.simps [simp del]

text \<open>\<open>BigInt.prototype.toString(16)\<close>: a negative value prints its sign.\<close>

definition toString16 :: "int \<Rightarrow> string" where
  "toString16 n = (if n < 0 then CHR ''-'' # hex_of_int (- n) else hex_of_int n)"

text \<open>
  \<open>(len / 2).toString(16)\<close> for the length of a string: a number, so that an odd length
  gives a half and prints as \<open>.8\<close> after the integral digits.
\<close>

definition half_toString16 :: "nat \<Rightarrow> string" where
  "half_toString16 len = hex_of_int (int len div 2) @ (if even len then [] else ''.8'')"

text \<open>The value of a hexadecimal digit, as \<open>asciiToBase16\<close> of @noble/hashes reads it.\<close>

definition asciiToBase16 :: "char \<Rightarrow> int option" where
  "asciiToBase16 c =
     (let n = (of_char c :: int) in
      if 48 \<le> n \<and> n \<le> 57 then Some (n - 48)
      else if 65 \<le> n \<and> n \<le> 70 then Some (n - 55)
      else if 97 \<le> n \<and> n \<le> 102 then Some (n - 87)
      else None)"

text \<open>
  \<open>hexToBytes\<close> of @noble/hashes/utils (a dependency, version 1.4): it throws on a string
  of odd length and on a character that is no hexadecimal digit.
\<close>

fun hexToBytes :: "string \<Rightarrow> error + bytes" where
  "hexToBytes [] = Inr []"
| "hexToBytes [c] = Inl LibraryError"
| "hexToBytes (c1 # c2 # rest) =
     (case (asciiToBase16 c1, asciiToBase16 c2) of
        (Some n1, Some n2) \<Rightarrow> ebind (hexToBytes rest) (\<lambda>bs. Inr ((n1 * 16 + n2) # bs))
      | _ \<Rightarrow> Inl LibraryError)"

text \<open>\<open>bytesToHex\<close>: two lower-case digits per byte.\<close>

definition bytesToHex :: "bytes \<Rightarrow> string" where
  "bytesToHex bs = concat (map (\<lambda>b. [hexdigit (b div 16), hexdigit (b mod 16)]) bs)"

text \<open>\<open>utf8ToBytes\<close> and \<open>Buffer.from(str)\<close>: the bytes of the string.\<close>

definition utf8ToBytes :: "string \<Rightarrow> bytes" where
  "utf8ToBytes s = map of_char s"

subsection \<open>\<open>BigInt(string)\<close> and \<open>parseInt(string, 16)\<close>\<close>

definition isWhiteSpace :: "char \<Rightarrow> bool" where
  "isWhiteSpace c = ((of_char c :: int) \<in> {9, 10, 11, 12, 13, 32})"

definition trim :: "string \<Rightarrow> string" where
  "trim s = rev (dropWhile isWhiteSpace (rev (dropWhile isWhiteSpace s)))"

definition digit_in_radix :: "int \<Rightarrow> char \<Rightarrow> int option" where
  "digit_in_radix r c = (case asciiToBase16 c of None \<Rightarrow> None | Some d \<Rightarrow> if d < r then Some d else None)"

text \<open>The value of a non-empty string of digits of the radix; \<open>None\<close> on any other character.\<close>

fun digits_value :: "int \<Rightarrow> int \<Rightarrow> string \<Rightarrow> int option" where
  "digits_value r acc [] = Some acc"
| "digits_value r acc (c # cs) =
     (case digit_in_radix r c of
        None \<Rightarrow> None
      | Some d \<Rightarrow> digits_value r (acc * r + d) cs)"

definition digits :: "int \<Rightarrow> string \<Rightarrow> int option" where
  "digits r s = (if s = [] then None else digits_value r 0 s)"

text \<open>
  \<open>BigInt(s)\<close> for a string: white space is trimmed, the empty string is 0, a decimal
  literal may carry a sign, a literal with prefix \<open>0x\<close>, \<open>0o\<close> or \<open>0b\<close> may not;
  anything else is a \<open>SyntaxError\<close>.
\<close>

definition BigInt_string :: "string \<Rightarrow> error + int" where
  "BigInt_string s =
     (let t = trim s;
          p = toLowerCase (take 2 t);
          res = (if t = [] then Some 0
                 else if p = ''0x'' then digits 16 (drop 2 t)
                 else if p = ''0o'' then digits 8 (drop 2 t)
                 else if p = ''0b'' then digits 2 (drop 2 t)
                 else if hd t = CHR ''-'' then map_option uminus (digits 10 (tl t))
                 else if hd t = CHR ''+'' then digits 10 (tl t)
                 else digits 10 t)
      in case res of None \<Rightarrow> Inl LibraryError | Some n \<Rightarrow> Inr n)"

text \<open>\<open>BigInt(value)\<close> as \<open>abiEncode\<close> applies it to a value of any type.\<close>

definition BigInt_js :: "js_value \<Rightarrow> error + int" where
  "BigInt_js v = (case v of
      JInt n \<Rightarrow> Inr n
    | JStr s \<Rightarrow> BigInt_string s
    | JBool b \<Rightarrow> Inr (if b then 1 else 0)
    | JUndefined \<Rightarrow> Inl LibraryError)"

text \<open>
  \<open>parseInt(s, 16)\<close>: leading white space, a sign and a \<open>0x\<close> prefix are skipped, then the
  longest run of hexadecimal digits is read; \<open>None\<close> is \<open>NaN\<close>.
\<close>

definition parseInt16 :: "string \<Rightarrow> int option" where
  "parseInt16 s =
     (let t = dropWhile isWhiteSpace s;
          neg = (t \<noteq> [] \<and> hd t = CHR ''-'');
          u = (if t \<noteq> [] \<and> (hd t = CHR ''-'' \<or> hd t = CHR ''+'') then tl t else t);
          w = (if toLowerCase (take 2 u) = ''0x'' then drop 2 u else u);
          ds = takeWhile (\<lambda>c. asciiToBase16 c \<noteq> None) w
      in case digits 16 ds of
           None \<Rightarrow> None
         | Some n \<Rightarrow> Some (if neg then - n else n))"

section \<open>Hashing and ABI encoding (shared/crypto.ts)\<close>

text \<open>
  Keccak-256 and the secp256k1 curve come from libraries outside the repository; the model
  takes them as parameters. \<open>keccak_256\<close> maps a byte array to its digest. \<open>secp_sign\<close>
  is \<open>secp256k1.sign(hash, key)\<close> and returns \<open>(r, s, recovery)\<close>, \<open>None\<close> when the call
  throws. \<open>secp_recover r s yParity hash\<close> stands for
  \<open>new secp256k1.Signature(BigInt(r), BigInt(s)).addRecoveryBit(yParity)
  .recoverPublicKey(hash).toRawBytes(false).slice(1)\<close>, with \<open>r\<close> and \<open>s\<close> the strings
  that \<open>parseSignature\<close> made; \<open>None\<close> when any step of it throws.
\<close>

record prims =
  keccak_256 :: "bytes \<Rightarrow> bytes"
  secp_sign :: "bytes \<Rightarrow> bytes \<Rightarrow> (int \<times> int \<times> int) option"
  secp_recover :: "string \<Rightarrow> string \<Rightarrow> int \<Rightarrow> bytes \<Rightarrow> bytes option"

text \<open>\<open>keccak256(data: Uint8Array | string)\<close>: a string is read as hexadecimal.\<close>

definition keccak256 :: "prims \<Rightarrow> bytes + string \<Rightarrow> error + string" where
  "keccak256 P data =
     ebind (case data of Inr s \<Rightarrow> hexToBytes (replace_0x s) | Inl bs \<Rightarrow> Inr bs)
       (\<lambda>input. Inr (''0x'' @ bytesToHex (keccak_256 P input)))"

definition keccak256String :: "prims \<Rightarrow> string \<Rightarrow> string" where
  "keccak256String P str = ''0x'' @ bytesToHex (keccak_256 P (utf8ToBytes str))"

text \<open>One step of the loop of \<open>encodePacked\<close>: what a value appends.\<close>

definition encodePacked_value :: "js_value \<Rightarrow> string" where
  "encodePacked_value v = (case v of
      JStr s \<Rightarrow> if startsWith_0x s then drop 2 s else bytesToHex (utf8ToBytes s)
    | JInt n \<Rightarrow> padStart 64 CHR ''0'' (toString16 n)
    | JBool b \<Rightarrow> if b then ''01'' else ''00''
    | JUndefined \<Rightarrow> [])"

definition encodePacked :: "js_value list \<Rightarrow> string" where
  "encodePacked vs = ''0x'' @ concat (map encodePacked_value vs)"

text \<open>
  One step of the loop of \<open>abiEncode\<close>: what the pair of a type name and a value appends.
  A type name that none of the branches tests appends nothing.
\<close>

definition js_truthy :: "js_value \<Rightarrow> bool" where
  "js_truthy v = (case v of JStr s \<Rightarrow> s \<noteq> [] | JInt n \<Rightarrow> n \<noteq> 0 | JBool b \<Rightarrow> b | JUndefined \<Rightarrow> False)"

definition as_string :: "js_value \<Rightarrow> error + string" where
  "as_string v = (case v of JStr s \<Rightarrow> Inr s | _ \<Rightarrow> Inl LibraryError)"

definition abiEncode_value :: "string \<Rightarrow> js_value \<Rightarrow> error + string" where
  "abiEncode_value type v =
     (if type = ''address'' then
        ebind (as_string v) (\<lambda>s. Inr (padStart 64 CHR ''0'' (toLowerCase (drop 2 s))))
      else if type = ''uint256'' \<or> type = ''int256'' then
        ebind (BigInt_js v) (\<lambda>bn. Inr (padStart 64 CHR ''0'' (toString16 bn)))
      else if type = ''bytes32'' then
        ebind (as_string v) (\<lambda>s. Inr (padStart 64 CHR ''0'' (drop 2 s)))
      else if type = ''bool'' then
        Inr (if js_truthy v then replicate 63 CHR ''0'' @ ''1'' else replicate 64 CHR ''0'')
      else if type = ''bytes'' then
        ebind (as_string v) (\<lambda>s.
          let data = drop 2 s in
          Inr (padStart 64 CHR ''0'' (half_toString16 (length data))
               @ padEnd (((length data + 63) div 64) * 64) CHR ''0'' data))
      else Inr [])"

fun abiEncode_loop :: "string list \<Rightarrow> js_value list \<Rightarrow> string \<Rightarrow> error + string" where
  "abiEncode_loop [] values encoded = Inr encoded"
| "abiEncode_loop (type # types) values encoded =
     ebind (abiEncode_value type (case values of [] \<Rightarrow> JUndefined | v # _ \<Rightarrow> v))
       (\<lambda>chunk. abiEncode_loop types (tl values) (encoded @ chunk))"

definition abiEncode :: "string list \<Rightarrow> js_value list \<Rightarrow> error + string" where
  "abiEncode types values = abiEncode_loop types values ''0x''"


subsection \<open>Asset and condition hashing\<close>

record AssetIdentifier =
  chainId :: int
  assetType :: AssetType
  contractAddress :: "string option"
  tokenId :: "int option"

record FulfillmentCondition =
  targetChainId :: int
  targetAsset :: AssetIdentifier
  targetAmount :: int
  recipient :: string
  executionData :: "string option"

definition zero_address :: string where
  "zero_address = ''0x'' @ replicate 40 CHR ''0''"

definition zero_hash :: string where
  "zero_hash = ''0x'' @ replicate 64 CHR ''0''"

text \<open>The number that \<open>hashAsset\<close> passes for the asset type.\<close>

definition assetType_code :: "AssetType \<Rightarrow> int" where
  "assetType_code t = (if t = native then 0 else if t = erc20 then 1 else if t = erc721 then 2 else 3)"

text \<open>\<open>asset.contractAddress || zero\<close> and \<open>asset.tokenId || 0n\<close>: an empty string and 0 are falsy.\<close>

definition contract_or_zero :: "AssetIdentifier \<Rightarrow> string" where
  "contract_or_zero asset =
     (case contractAddress asset of None \<Rightarrow> zero_address | Some a \<Rightarrow> if a = [] then zero_address else a)"

definition tokenId_or_zero :: "AssetIdentifier \<Rightarrow> int" where
  "tokenId_or_zero asset = (case tokenId asset of None \<Rightarrow> 0 | Some t \<Rightarrow> t)"

text \<open>The local \<open>encoded\<close> of \<open>hashAsset\<close>: the string that is hashed.\<close>

definition hashAsset_encoded :: "AssetIdentifier \<Rightarrow> error + string" where
  "hashAsset_encoded asset =
     abiEncode [''uint256'', ''uint8'', ''address'', ''uint256'']
       [JInt (chainId asset), JInt (assetType_code (assetType asset)),
        JStr (contract_or_zero asset), JInt (tokenId_or_zero asset)]"

definition hashAsset :: "prims \<Rightarrow> AssetIdentifier \<Rightarrow> error + string" where
  "hashAsset P asset = ebind (hashAsset_encoded asset) (\<lambda>encoded. keccak256 P (Inr encoded))"

definition hashFulfillmentCondition :: "prims \<Rightarrow> FulfillmentCondition \<Rightarrow> error + string" where
  "hashFulfillmentCondition P condition =
     ebind (hashAsset P (targetAsset condition)) (\<lambda>assetHash.
     ebind (case executionData condition of
              None \<Rightarrow> Inr zero_hash
            | Some d \<Rightarrow> if d = [] then Inr zero_hash else keccak256 P (Inr d)) (\<lambda>execHash.
     ebind (abiEncode [''uint256'', ''bytes32'', ''uint256'', ''address'', ''bytes32'']
              [JInt (targetChainId condition), JStr assetHash, JInt (targetAmount condition),
               JStr (recipient condition), JStr execHash]) (\<lambda>encoded.
     keccak256 P (Inr encoded))))"

definition generateLockId ::
  "prims \<Rightarrow> string \<Rightarrow> AssetIdentifier \<Rightarrow> int \<Rightarrow> int \<Rightarrow> int \<Rightarrow> error + string" where
  "generateLockId P owner asset amount nonce timestamp =
     ebind (hashAsset P asset) (\<lambda>assetHash.
     ebind (abiEncode [''address'', ''bytes32'', ''uint256'', ''uint256'', ''uint256'']
              [JStr owner, JStr assetHash, JInt amount, JInt nonce, JInt timestamp]) (\<lambda>encoded.
     keccak256 P (Inr encoded)))"

subsection \<open>EIP-712\<close>

record EIP712Domain =
  name :: string
  version :: string
  domain_chainId :: int
  verifyingContract :: string

record LockApprovalMessage =
  msg_lockId :: string
  msg_owner :: string
  msg_asset :: string
  msg_amount :: int
  msg_nonce :: int
  msg_expiresAt :: int
  msg_fulfillmentHash :: string

text \<open>\<open>LOCK_APPROVAL_TYPES\<close> of shared/types.ts: the fields as (name, type).\<close>

definition LOCK_APPROVAL_TYPES :: "(string \<times> (string \<times> string) list) list" where
  "LOCK_APPROVAL_TYPES =
     [(''LockApproval'',
       [(''lockId'', ''bytes32''), (''owner'', ''address''), (''asset'', ''bytes32''),
        (''amount'', ''uint256''), (''nonce'', ''uint256''), (''expiresAt'', ''uint256''),
        (''fulfillmentHash'', ''bytes32'')])]"

definition EIP712_DOMAIN_TYPEHASH :: "prims \<Rightarrow> string" where
  "EIP712_DOMAIN_TYPEHASH P =
     keccak256String P
       ''EIP712Domain(string name,string version,uint256 chainId,address verifyingContract)''"

definition hashDomain :: "prims \<Rightarrow> EIP712Domain \<Rightarrow> error + string" where
  "hashDomain P domain =
     ebind (abiEncode [''bytes32'', ''bytes32'', ''bytes32'', ''uint256'', ''address'']
              [JStr (EIP712_DOMAIN_TYPEHASH P), JStr (keccak256String P (name domain)),
               JStr (keccak256String P (version domain)), JInt (domain_chainId domain),
               JStr (verifyingContract domain)]) (\<lambda>encoded.
     keccak256 P (Inr encoded))"

fun join_comma :: "string list \<Rightarrow> string" where
  "join_comma [] = []"
| "join_comma [x] = x"
| "join_comma (x # y # rest) = x @ '','' @ join_comma (y # rest)"

definition hashType :: "prims \<Rightarrow> string \<Rightarrow> (string \<times> (string \<times> string) list) list \<Rightarrow> error + string" where
  "hashType P typeName types =
     (case map_of types typeName of
        None \<Rightarrow> Inl LibraryError
      | Some typeFields \<Rightarrow>
          Inr (keccak256String P
                 (typeName @ ''('' @ join_comma (map (\<lambda>(n, t). t @ '' '' @ n) typeFields) @ '')'')))"

definition hashLockApproval :: "prims \<Rightarrow> LockApprovalMessage \<Rightarrow> error + string" where
  "hashLockApproval P message =
     ebind (hashType P ''LockApproval'' LOCK_APPROVAL_TYPES) (\<lambda>typehash.
     ebind (abiEncode [''bytes32'', ''bytes32'', ''address'', ''bytes32'', ''uint256'', ''uint256'',
                       ''uint256'', ''bytes32'']
              [JStr typehash, JStr (msg_lockId message), JStr (msg_owner message),
               JStr (msg_asset message), JInt (msg_amount message), JInt (msg_nonce message),
               JInt (msg_expiresAt message), JStr (msg_fulfillmentHash message)]) (\<lambda>encoded.
     keccak256 P (Inr encoded)))"

text \<open>\<open>arr.set(src, offset)\<close> on a \<open>Uint8Array\<close>: a \<open>RangeError\<close> when the source does not fit.\<close>

definition u8_set :: "bytes \<Rightarrow> bytes \<Rightarrow> nat \<Rightarrow> error + bytes" where
  "u8_set arr src off =
     (if off + length src > length arr then Inl LibraryError
      else Inr (take off arr @ src @ drop (off + length src) arr))"

definition hashTypedData :: "prims \<Rightarrow> EIP712Domain \<Rightarrow> LockApprovalMessage \<Rightarrow> error + string" where
  "hashTypedData P domain message =
     ebind (hashDomain P domain) (\<lambda>domainSeparator.
     ebind (hashLockApproval P message) (\<lambda>structHash.
     ebind (u8_set (replicate 66 0) [25, 1] 0) (\<lambda>c0.
     ebind (hexToBytes (drop 2 domainSeparator)) (\<lambda>d.
     ebind (u8_set c0 d 2) (\<lambda>c1.
     ebind (hexToBytes (drop 2 structHash)) (\<lambda>t.
     ebind (u8_set c1 t 34) (\<lambda>combined.
     keccak256 P (Inl combined))))))))"

subsection \<open>ECDSA\<close>

definition signHash :: "prims \<Rightarrow> string \<Rightarrow> string \<Rightarrow> error + string" where
  "signHash P messageHash privateKey =
     ebind (hexToBytes (drop 2 messageHash)) (\<lambda>hashBytes.
     ebind (hexToBytes (drop 2 privateKey)) (\<lambda>privKeyBytes.
     case secp_sign P hashBytes privKeyBytes of
       None \<Rightarrow> Inl LibraryError
     | Some (r, s, recovery) \<Rightarrow>
         Inr (''0x'' @ padStart 64 CHR ''0'' (toString16 r) @ padStart 64 CHR ''0'' (toString16 s)
              @ padStart 2 CHR ''0'' (toString16 (recovery + 27)))))"

record ECDSASignature =
  sig_r :: string
  sig_s :: string
  sig_v :: "int option"
  yParity :: int

definition parseSignature :: "string \<Rightarrow> ECDSASignature" where
  "parseSignature signature =
     (let sig = drop 2 signature in
      \<lparr> sig_r = ''0x'' @ take 64 sig,
        sig_s = ''0x'' @ take 64 (drop 64 sig),
        sig_v = parseInt16 (take 2 (drop 128 sig)),
        yParity = (if parseInt16 (take 2 (drop 128 sig)) = Some 27 then 0 else 1) \<rparr>)"

definition recoverAddress :: "prims \<Rightarrow> string \<Rightarrow> string \<Rightarrow> error + string" where
  "recoverAddress P messageHash signature =
     ebind (hexToBytes (drop 2 messageHash)) (\<lambda>hashBytes.
     let parsed = parseSignature signature in
     case secp_recover P (sig_r parsed) (sig_s parsed) (yParity parsed) hashBytes of
       None \<Rightarrow> Inl LibraryError
     | Some pubKeyBytes \<Rightarrow>
         ebind (keccak256 P (Inl pubKeyBytes)) (\<lambda>addressHash.
         Inr (''0x'' @ drop (length addressHash - 40) addressHash)))"

subsection \<open>The Merkle tree\<close>

record MerkleTree =
  leaves :: "string list"
  layers :: "string list list"

text \<open>The body of the inner loop of \<open>buildTree\<close>: the parent of \<open>left\<close> and \<open>right\<close>.\<close>

definition hashPair :: "prims \<Rightarrow> string \<Rightarrow> string \<Rightarrow> error + string" where
  "hashPair P left right =
     (let a = (if js_lt left right then left else right);
          b = (if js_lt left right then right else left)
      in keccak256 P (Inr (encodePacked [JStr a, JStr b])))"

text \<open>
  The inner \<open>for\<close> loop: \<open>right = currentLayer[i + 1] || left\<close> takes \<open>left\<close> when there
  is no element at \<open>i + 1\<close> (or an empty string).
\<close>

fun nextLayer_of :: "prims \<Rightarrow> string list \<Rightarrow> error + string list" where
  "nextLayer_of P [] = Inr []"
| "nextLayer_of P [left] = ebind (hashPair P left left) (\<lambda>h. Inr [h])"
| "nextLayer_of P (left # r # rest) =
     ebind (hashPair P left (if r = [] then left else r)) (\<lambda>h.
     ebind (nextLayer_of P rest) (\<lambda>hs. Inr (h # hs)))"

lemma nextLayer_of_length:
  "nextLayer_of P xs = Inr nl \<Longrightarrow> length nl = (length xs + 1) div 2"
proof (induction P xs arbitrary: nl rule: nextLayer_of.induct)
  case (1 P)
  then show ?case by simp
next
  case (2 P left)
  then show ?case by (auto simp: ebind_def split: sum.splits)
next
  case (3 P left r rest)
  then show ?case by (auto simp: ebind_def split: sum.splits)
qed

text \<open>
  The \<open>while\<close> loop of \<open>buildTree\<close>. It returns the layers built so far and the exception,
  if hashing threw: \<open>this.layers\<close> is assigned before the loop and grows by \<open>push\<close>.
\<close>

function buildTree_loop :: "prims \<Rightarrow> string list list \<Rightarrow> string list \<Rightarrow> error option \<times> string list list" where
  "buildTree_loop P lys currentLayer =
     (if length currentLayer > 1 then
        (case nextLayer_of P currentLayer of
           Inl e \<Rightarrow> (Some e, lys)
         | Inr nextLayer \<Rightarrow> buildTree_loop P (lys @ [nextLayer]) nextLayer)
      else (None, lys))"
  by pat_completeness auto
termination
proof (relation "measure (\<lambda>(P, lys, cur). length cur)")
  show "wf (measure (\<lambda>(P, lys, cur). length cur))" by simp
next
  fix P :: prims and lys :: "string list list" and currentLayer nl :: "string list"
  assume "1 < length currentLayer" and "nextLayer_of P currentLayer = Inr nl"
  then show "((P, lys @ [nl], nl), (P, lys, currentLayer)) \<in> measure (\<lambda>(P, lys, cur). length cur)"
    using nextLayer_of_length [of P currentLayer nl] by simp
qed

declare buildTree_loop.simps [simp del]

definition buildTree :: "prims \<Rightarrow> MerkleTree \<Rightarrow> error option \<times> MerkleTree" where
  "buildTree P t =
     (case buildTree_loop P [leaves t] (leaves t) of (e, lys) \<Rightarrow> (e, t\<lparr>layers := lys\<rparr>))"

text \<open>\<open>new MerkleTree(leaves)\<close>.\<close>

definition MerkleTree_new :: "prims \<Rightarrow> string list \<Rightarrow> error option \<times> MerkleTree" where
  "MerkleTree_new P ls =
     (if length ls > 0 then buildTree P \<lparr>leaves = ls, layers = []\<rparr>
      else (None, \<lparr>leaves = ls, layers = []\<rparr>))"

text \<open>
  \<open>getRoot\<close>. A last layer without elements is not produced by the methods of the class;
  JavaScript would return \<open>undefined\<close> there.
\<close>

definition getRoot :: "MerkleTree \<Rightarrow> string" where
  "getRoot t =
     (if length (layers t) = 0 then zero_hash
      else (case last (layers t) of [] \<Rightarrow> ''undefined'' | h # _ \<Rightarrow> h))"

text \<open>The loop of \<open>getProof\<close> over all layers but the last.\<close>

fun getProof_loop :: "string list list \<Rightarrow> nat \<Rightarrow> string list \<Rightarrow> string list" where
  "getProof_loop (layer # l2 # rest) idx proof =
     (let siblingIdx = (if idx mod 2 = 0 then idx + 1 else idx - 1)
      in getProof_loop (l2 # rest) (idx div 2)
           (if siblingIdx < length layer then proof @ [layer ! siblingIdx] else proof))"
| "getProof_loop lys idx proof = proof"

definition getProof :: "MerkleTree \<Rightarrow> nat \<Rightarrow> string list" where
  "getProof t index = getProof_loop (layers t) index []"

fun verifyProof_loop :: "prims \<Rightarrow> string \<Rightarrow> string list \<Rightarrow> error + string" where
  "verifyProof_loop P computedHash [] = Inr computedHash"
| "verifyProof_loop P computedHash (proofElement # rest) =
     ebind (hashPair P computedHash proofElement) (\<lambda>h. verifyProof_loop P h rest)"

definition verifyProof :: "prims \<Rightarrow> string \<Rightarrow> string list \<Rightarrow> string \<Rightarrow> error + bool" where
  "verifyProof P leaf proof root =
     ebind (verifyProof_loop P leaf proof) (\<lambda>computedHash. Inr (computedHash = root))"

definition addLeaf :: "prims \<Rightarrow> MerkleTree \<Rightarrow> string \<Rightarrow> error option \<times> MerkleTree" where
  "addLeaf P t leaf = buildTree P (t\<lparr>leaves := leaves t @ [leaf]\<rparr>)"

text \<open>
  \<open>removeLeaf\<close>: the first occurrence of the leaf is spliced out. The boolean it returns is
  \<open>leaf \<in> set (leaves t)\<close>; the enclave ignores it.
\<close>

definition removeLeaf :: "prims \<Rightarrow> MerkleTree \<Rightarrow> string \<Rightarrow> error option \<times> MerkleTree" where
  "removeLeaf P t leaf =
     (if leaf \<notin> set (leaves t) then (None, t)
      else let t' = t\<lparr>leaves := remove1 leaf (leaves t)\<rparr>
           in if length (leaves t') > 0 then buildTree P t' else (None, t'\<lparr>layers := []\<rparr>))"


section \<open>The enclave (enclave/ccm.ts)\<close>

subsection \<open>Types (shared/types.ts)\<close>

record ResourceLock =
  lock_id :: string
  owner :: string
  asset :: AssetIdentifier
  amount :: int
  lockedAt :: int
  expiresAt :: int
  nonce :: int
  fulfillmentCondition :: FulfillmentCondition
  status :: LockStatus
  ccmSignature :: "string option"
  userSignature :: "string option"

record CCMAttestation =
  att_enclaveId :: string
  att_timestamp :: int
  commitmentHash :: string
  att_signature :: string

record Commitment =
  c_lockId :: string
  c_version :: int
  c_chainId :: int
  smartAccount :: string
  lockedAsset :: AssetIdentifier
  lockedAmount :: int
  createdAt :: int
  c_expiresAt :: int
  settlementDeadline :: int
  c_fulfillmentCondition :: FulfillmentCondition
  c_nonce :: int
  c_stateRoot :: string
  userSignatureHash :: string
  ccmAttestation :: CCMAttestation

record UserOperation =
  sender :: string
  uo_nonce :: int
  initCode :: string
  callData :: string
  callGasLimit :: int
  verificationGasLimit :: int
  preVerificationGas :: int
  maxFeePerGas :: int
  maxPriorityFeePerGas :: int
  paymasterAndData :: string
  uo_signature :: string

record AppAttestation =
  app_enclaveId :: string
  operation :: string
  app_timestamp :: int
  dataHash :: string
  app_signature :: string

record CreateLockRequest =
  req_owner :: string
  sessionKey :: string
  req_asset :: AssetIdentifier
  req_amount :: string
  expiresIn :: int
  req_fulfillmentCondition :: FulfillmentCondition

record TypedData =
  td_domain :: EIP712Domain
  td_types :: "(string \<times> (string \<times> string) list) list"
  td_primaryType :: string
  td_message :: LockApprovalMessage

record CreateLockResponse =
  resp_lock :: ResourceLock
  typedDataToSign :: TypedData
  expirationTimestamp :: int

record SignLockRequest =
  sl_lockId :: string
  sl_signature :: string

record SignLockResponse =
  commitment :: Commitment
  sl_status :: LockStatus

record FulfillmentProof =
  transactionHash :: string
  blockNumber :: int
  blockHash :: string
  logIndex :: int
  merkleProof :: "string list option"

record FulfillLockRequest =
  fl_lockId :: string
  fulfillmentProof :: FulfillmentProof

record FulfillLockResponse =
  settlementUserOp :: UserOperation
  fl_commitment :: Commitment

record RiskLimits =
  maxTotalLockedPerAccount :: int
  maxSingleLockAmount :: int
  maxConcurrentLocks :: int
  maxDailyVolume :: int

record EnclaveConfig =
  maxLockDuration :: int
  minLockDuration :: int
  supportedChains :: "int list"
  supportedAssets :: "AssetIdentifier list"
  settlementBuffer :: int
  riskLimits :: RiskLimits

text \<open>
  A JavaScript \<open>Map\<close> keeps its keys in insertion order: the three maps of the enclave
  are association lists, read with \<open>map_of\<close> and written with \<open>AList.update\<close> (in place
  for a key that is present, at the end for a new one).
\<close>

record EnclaveState =
  enclaveId :: string
  privateKey :: string
  publicKey :: string
  bootTime :: int
  locks :: "(string \<times> ResourceLock) list"
  nonces :: "(string \<times> int) list"
  stateRoot :: string

text \<open>The fields of the class \<open>CredibleCommitmentMachine\<close>.\<close>

record CCM =
  state :: EnclaveState
  config :: EnclaveConfig
  lockMerkleTree :: MerkleTree
  dailyVolume :: "(string \<times> int) list"

definition DEFAULT_CONFIG :: EnclaveConfig where
  "DEFAULT_CONFIG =
     \<lparr> maxLockDuration = 3600, minLockDuration = 30,
       supportedChains = [1, 10, 137, 42161, 8453], supportedAssets = [],
       settlementBuffer = 300,
       riskLimits = \<lparr> maxTotalLockedPerAccount = 1000000000000000000000000,
                      maxSingleLockAmount = 100000000000000000000000,
                      maxConcurrentLocks = 100,
                      maxDailyVolume = 10000000000000000000000000 \<rparr> \<rparr>"

definition CCM_DOMAIN :: EIP712Domain where
  "CCM_DOMAIN =
     \<lparr> name = ''CredibleCommitmentMachine'', version = ''1.0.0'', domain_chainId = 0,
       verifyingContract = zero_address \<rparr>"

text \<open>
  The constructor. The private key, the address derived from it, the enclave id and the
  boot time come from the random source and the clock; they are arguments here.
\<close>

definition CCM_new :: "EnclaveConfig \<Rightarrow> string \<Rightarrow> string \<Rightarrow> string \<Rightarrow> int \<Rightarrow> CCM" where
  "CCM_new cfg privKey pubKey eid boot =
     \<lparr> state = \<lparr> enclaveId = eid, privateKey = privKey, publicKey = pubKey, bootTime = boot,
                 locks = [], nonces = [], stateRoot = zero_hash \<rparr>,
       config = cfg,
       lockMerkleTree = \<lparr> leaves = [], layers = [] \<rparr>,
       dailyVolume = [] \<rparr>"

text \<open>Writes to the lock map.\<close>

definition locks_set :: "CCM \<Rightarrow> string \<Rightarrow> ResourceLock \<Rightarrow> CCM" where
  "locks_set c k l = c\<lparr>state := (state c)\<lparr>locks := AList.update k l (locks (state c))\<rparr>\<rparr>"

text \<open>The assignments to \<open>this.lockMerkleTree\<close>, \<open>this.state.stateRoot\<close> and \<open>this.dailyVolume\<close>.\<close>

definition tree_set :: "CCM \<Rightarrow> MerkleTree \<Rightarrow> CCM" where
  "tree_set c t = c\<lparr>lockMerkleTree := t\<rparr>"

definition stateRoot_set :: "CCM \<Rightarrow> string \<Rightarrow> CCM" where
  "stateRoot_set c r = c\<lparr>state := (state c)\<lparr>stateRoot := r\<rparr>\<rparr>"

definition dailyVolume_set :: "CCM \<Rightarrow> string \<Rightarrow> int \<Rightarrow> CCM" where
  "dailyVolume_set c date v = c\<lparr>dailyVolume := AList.update date v (dailyVolume c)\<rparr>"

definition nonces_set :: "CCM \<Rightarrow> string \<Rightarrow> int \<Rightarrow> CCM" where
  "nonces_set c k n = c\<lparr>state := (state c)\<lparr>nonces := AList.update k n (nonces (state c))\<rparr>\<rparr>"

subsection \<open>Nonces\<close>

text \<open>\<open>this.state.nonces.get(owner.toLowerCase()) || 0n\<close>.\<close>

definition getCurrentNonce :: "CCM \<Rightarrow> string \<Rightarrow> int" where
  "getCurrentNonce c ownr =
     (case map_of (nonces (state c)) (toLowerCase ownr) of None \<Rightarrow> 0 | Some n \<Rightarrow> n)"

definition getNextNonce :: "CCM \<Rightarrow> string \<Rightarrow> int \<times> CCM" where
  "getNextNonce c ownr =
     (let current = (case map_of (nonces (state c)) (toLowerCase ownr) of None \<Rightarrow> 0 | Some n \<Rightarrow> n);
          next = current + 1
      in (next, nonces_set c (toLowerCase ownr) next))"

subsection \<open>Validation\<close>

text \<open>
  Each validation function returns the error it throws, if any. The test of
  \<open>asset.assetType\<close> against the four names cannot fail on a value of the type.
\<close>

definition validateAsset :: "CCM \<Rightarrow> AssetIdentifier \<Rightarrow> error option" where
  "validateAsset c a =
     (if chainId a \<notin> set (supportedChains (config c)) then Some (UnsupportedChain (chainId a))
      else if assetType a \<noteq> native \<and> (contractAddress a = None \<or> contractAddress a = Some [])
        then Some ContractAddressRequired
      else None)"

definition validateAmount :: "CCM \<Rightarrow> int \<Rightarrow> error option" where
  "validateAmount c amt =
     (if amt \<le> 0 then Some AmountMustBePositive
      else if amt > maxSingleLockAmount (riskLimits (config c)) then Some AmountExceedsSingleLockLimit
      else None)"

definition validateDuration :: "CCM \<Rightarrow> int \<Rightarrow> error option" where
  "validateDuration c ein =
     (if ein < minLockDuration (config c) then Some DurationTooShort
      else if ein > maxLockDuration (config c) then Some DurationTooLong
      else None)"

definition getActiveLocks :: "CCM \<Rightarrow> string \<Rightarrow> ResourceLock list" where
  "getActiveLocks c ownr =
     filter (\<lambda>l. toLowerCase (owner l) = toLowerCase ownr \<and> status l = ACTIVE)
       (map snd (locks (state c)))"

text \<open>\<open>this.dailyVolume.get(date) || 0n\<close>.\<close>

definition volume_on :: "CCM \<Rightarrow> string \<Rightarrow> int" where
  "volume_on c date = (case map_of (dailyVolume c) date of None \<Rightarrow> 0 | Some v \<Rightarrow> v)"

text \<open>\<open>today\<close> is the date string that the wall clock gives.\<close>

definition validateRiskLimits :: "CCM \<Rightarrow> string \<Rightarrow> string \<Rightarrow> int \<Rightarrow> error option" where
  "validateRiskLimits c today ownr amt =
     (let ownerLocks = filter (\<lambda>l. toLowerCase (owner l) = toLowerCase ownr \<and> status l = ACTIVE)
                         (map snd (locks (state c)));
          totalLocked = sum_list (map amount ownerLocks);
          todayVolume = volume_on c today
      in if int (length ownerLocks) \<ge> maxConcurrentLocks (riskLimits (config c))
           then Some TooManyConcurrentLocks
         else if totalLocked + amt > maxTotalLockedPerAccount (riskLimits (config c))
           then Some TotalLockedAmountExceedsLimit
         else if todayVolume + amt > maxDailyVolume (riskLimits (config c))
           then Some DailyVolumeLimitExceeded
         else None)"

text \<open>The five validation calls of \<open>createLock\<close>, in order; the first error wins.\<close>

definition createLock_validate :: "CCM \<Rightarrow> string \<Rightarrow> CreateLockRequest \<Rightarrow> int \<Rightarrow> error option" where
  "createLock_validate c today request amt =
     (case validateAsset c (req_asset request) of Some e \<Rightarrow> Some e | None \<Rightarrow>
      case validateAmount c amt of Some e \<Rightarrow> Some e | None \<Rightarrow>
      case validateDuration c (expiresIn request) of Some e \<Rightarrow> Some e | None \<Rightarrow>
      case validateRiskLimits c today (req_owner request) amt of Some e \<Rightarrow> Some e | None \<Rightarrow>
      validateAsset c (targetAsset (req_fulfillmentCondition request)))"

subsection \<open>createLock\<close>

text \<open>
  Every operation takes the reading \<open>now\<close> of the secure clock (and \<open>today\<close>, the date
  of the wall clock, where it is read) and returns its result, or the error thrown,
  together with the enclave as the call leaves it: a call that throws keeps the writes it
  made before.
\<close>

text \<open>The part of \<open>createLock\<close> after the nonce is taken.\<close>

definition createLock_store ::
  "prims \<Rightarrow> CCM \<Rightarrow> int \<Rightarrow> CreateLockRequest \<Rightarrow> int \<Rightarrow> int \<Rightarrow> (error + CreateLockResponse) \<times> CCM" where
  "createLock_store P c1 now request amt nonce' =
     (case generateLockId P (req_owner request) (req_asset request) amt nonce' now of
        Inl e \<Rightarrow> (Inl e, c1)
      | Inr lockId \<Rightarrow>
          let lock = \<lparr> lock_id = lockId, owner = req_owner request, asset = req_asset request,
                       amount = amt, lockedAt = now, expiresAt = now + expiresIn request,
                       nonce = nonce',
                       fulfillmentCondition = req_fulfillmentCondition request,
                       status = PENDING, ccmSignature = None, userSignature = None \<rparr>;
              c2 = locks_set c1 lockId lock
          in case hashAsset P (req_asset request) of Inl e \<Rightarrow> (Inl e, c2) | Inr assetHash \<Rightarrow>
             case hashFulfillmentCondition P (req_fulfillmentCondition request) of
               Inl e \<Rightarrow> (Inl e, c2)
             | Inr fulfillmentHash \<Rightarrow>
                 (Inr \<lparr> resp_lock = lock,
                        typedDataToSign =
                          \<lparr> td_domain = CCM_DOMAIN\<lparr>domain_chainId := chainId (req_asset request)\<rparr>,
                            td_types = LOCK_APPROVAL_TYPES,
                            td_primaryType = ''LockApproval'',
                            td_message =
                              \<lparr> msg_lockId = lockId, msg_owner = req_owner request,
                                msg_asset = assetHash, msg_amount = amt, msg_nonce = nonce',
                                msg_expiresAt = now + expiresIn request,
                                msg_fulfillmentHash = fulfillmentHash \<rparr> \<rparr>,
                        expirationTimestamp = now + 30 \<rparr>, c2))"

definition createLock ::
  "prims \<Rightarrow> CCM \<Rightarrow> int \<Rightarrow> string \<Rightarrow> CreateLockRequest \<Rightarrow> (error + CreateLockResponse) \<times> CCM" where
  "createLock P c now today request =
     (case BigInt_string (req_amount request) of Inl e \<Rightarrow> (Inl e, c) | Inr amt \<Rightarrow>
      case createLock_validate c today request amt of Some e \<Rightarrow> (Inl e, c) | None \<Rightarrow>
      case getNextNonce c (req_owner request) of (nonce', c1) \<Rightarrow>
        createLock_store P c1 now request amt nonce')"

subsection \<open>Attestation and commitment\<close>

definition generateCCMAttestation :: "prims \<Rightarrow> CCM \<Rightarrow> int \<Rightarrow> ResourceLock \<Rightarrow> error + CCMAttestation" where
  "generateCCMAttestation P c now lock =
     ebind (hashAsset P (asset lock)) (\<lambda>assetHash.
     ebind (hashFulfillmentCondition P (fulfillmentCondition lock)) (\<lambda>fulfillmentHash.
     ebind (abiEncode [''bytes32'', ''address'', ''bytes32'', ''uint256'', ''uint256'', ''uint256'', ''bytes32'']
              [JStr (lock_id lock), JStr (owner lock), JStr assetHash, JInt (amount lock),
               JInt (nonce lock), JInt (expiresAt lock), JStr fulfillmentHash]) (\<lambda>lockData.
     ebind (keccak256 P (Inr lockData)) (\<lambda>lockDataHash.
     ebind (abiEncode [''bytes32'', ''uint256'', ''bytes32'']
              [JStr (enclaveId (state c)), JInt now, JStr lockDataHash]) (\<lambda>attestationData.
     ebind (keccak256 P (Inr attestationData)) (\<lambda>commitmentHash'.
     ebind (signHash P commitmentHash' (privateKey (state c))) (\<lambda>signature.
     Inr \<lparr> att_enclaveId = enclaveId (state c), att_timestamp = now,
           commitmentHash = commitmentHash', att_signature = signature \<rparr>)))))))"

text \<open>\<open>keccak256(lock.userSignature!)\<close>: Keccak rejects \<open>undefined\<close>.\<close>

definition generateCommitment :: "prims \<Rightarrow> CCM \<Rightarrow> ResourceLock \<Rightarrow> CCMAttestation \<Rightarrow> error + Commitment" where
  "generateCommitment P c lock attestation =
     ebind (case userSignature lock of None \<Rightarrow> Inl LibraryError | Some u \<Rightarrow> keccak256 P (Inr u))
       (\<lambda>sigHash.
     Inr \<lparr> c_lockId = lock_id lock, c_version = 1, c_chainId = chainId (asset lock),
           smartAccount = owner lock, lockedAsset = asset lock, lockedAmount = amount lock,
           createdAt = lockedAt lock, c_expiresAt = expiresAt lock,
           settlementDeadline = expiresAt lock + settlementBuffer (config c),
           c_fulfillmentCondition = fulfillmentCondition lock, c_nonce = nonce lock,
           c_stateRoot = stateRoot (state c), userSignatureHash = sigHash,
           ccmAttestation = attestation \<rparr>)"

subsection \<open>signLock\<close>

text \<open>The signer that \<open>signLock\<close> recovers, from the fields of the stored lock.\<close>

definition signLock_recover :: "prims \<Rightarrow> ResourceLock \<Rightarrow> string \<Rightarrow> error + string" where
  "signLock_recover P lock signature =
     ebind (hashAsset P (asset lock)) (\<lambda>assetHash.
     ebind (hashFulfillmentCondition P (fulfillmentCondition lock)) (\<lambda>fulfillmentHash.
     ebind (hashTypedData P (CCM_DOMAIN\<lparr>domain_chainId := chainId (asset lock)\<rparr>)
              \<lparr> msg_lockId = lock_id lock, msg_owner = owner lock, msg_asset = assetHash,
                msg_amount = amount lock, msg_nonce = nonce lock, msg_expiresAt = expiresAt lock,
                msg_fulfillmentHash = fulfillmentHash \<rparr>) (\<lambda>typedDataHash.
     recoverAddress P typedDataHash signature)))"

text \<open>
  \<open>lock\<close> is the object held by the map under \<open>request.lockId\<close>: an assignment to one of its
  fields is a write to the map at that key. \<open>this.state.locks.set(lock.id, lock)\<close> writes
  at the key \<open>lock.id\<close>.
\<close>

text \<open>The end of \<open>signLock\<close>: state root, daily volume, commitment.\<close>

definition signLock_finish ::
  "prims \<Rightarrow> CCM \<Rightarrow> string \<Rightarrow> ResourceLock \<Rightarrow> CCMAttestation \<Rightarrow> (error + SignLockResponse) \<times> CCM" where
  "signLock_finish P c3 today lock2 att =
     (let c4 = stateRoot_set c3 (getRoot (lockMerkleTree c3));
          currentVolume = volume_on c4 today;
          c5 = dailyVolume_set c4 today (currentVolume + amount lock2)
      in case generateCommitment P c5 lock2 att of
           Inl e \<Rightarrow> (Inl e, c5)
         | Inr com \<Rightarrow> (Inr \<lparr> commitment = com, sl_status = status lock2 \<rparr>, c5))"

text \<open>The co-signature is stored, the lock becomes active and its id a leaf.\<close>

definition signLock_activate ::
  "prims \<Rightarrow> CCM \<Rightarrow> string \<Rightarrow> string \<Rightarrow> ResourceLock \<Rightarrow> CCMAttestation \<Rightarrow> (error + SignLockResponse) \<times> CCM" where
  "signLock_activate P c1 today key lock1 att =
     (let lock2 = lock1\<lparr>ccmSignature := Some (att_signature att), status := ACTIVE\<rparr>;
          c2 = locks_set (locks_set c1 key lock2) (lock_id lock2) lock2
      in case addLeaf P (lockMerkleTree c2) (lock_id lock2) of
           (Some e, tree) \<Rightarrow> (Inl e, tree_set c2 tree)
         | (None, tree) \<Rightarrow> signLock_finish P (tree_set c2 tree) today lock2 att)"

text \<open>The part of \<open>signLock\<close> after the signer is accepted.\<close>

definition signLock_accept ::
  "prims \<Rightarrow> CCM \<Rightarrow> int \<Rightarrow> string \<Rightarrow> SignLockRequest \<Rightarrow> ResourceLock \<Rightarrow> (error + SignLockResponse) \<times> CCM" where
  "signLock_accept P c now today request lock =
     (let lock1 = lock\<lparr>userSignature := Some (sl_signature request)\<rparr>;
          c1 = locks_set c (sl_lockId request) lock1
      in case generateCCMAttestation P c1 now lock1 of
           Inl e \<Rightarrow> (Inl e, c1)
         | Inr att \<Rightarrow> signLock_activate P c1 today (sl_lockId request) lock1 att)"

definition signLock ::
  "prims \<Rightarrow> CCM \<Rightarrow> int \<Rightarrow> string \<Rightarrow> SignLockRequest \<Rightarrow> (error + SignLockResponse) \<times> CCM" where
  "signLock P c now today request =
     (case map_of (locks (state c)) (sl_lockId request) of
        None \<Rightarrow> (Inl LockNotFound, c)
      | Some lock \<Rightarrow>
          if status lock \<noteq> PENDING then (Inl (InvalidLockStatus (status lock)), c)
          else case signLock_recover P lock (sl_signature request) of
            Inl e \<Rightarrow> (Inl e, c)
          | Inr recoveredSigner \<Rightarrow>
              if toLowerCase recoveredSigner \<noteq> toLowerCase (owner lock)
                then (Inl InvalidSignature, c)
              else signLock_accept P c now today request lock)"

subsection \<open>Settlement\<close>

definition encodeTransferCalldata :: "AssetIdentifier \<Rightarrow> string \<Rightarrow> int \<Rightarrow> error + string" where
  "encodeTransferCalldata a rcpt amt =
     (if assetType a = native then
        abiEncode [''bytes4'', ''address'', ''uint256'', ''bytes'']
          [JStr ''0xb61d27f6'', JStr rcpt, JInt amt, JStr ''0x'']
      else if assetType a = erc20 then
        ebind (abiEncode [''bytes4'', ''address'', ''uint256'']
                 [JStr ''0xa9059cbb'', JStr rcpt, JInt amt]) (\<lambda>innerCalldata.
        abiEncode [''bytes4'', ''address'', ''uint256'', ''bytes'']
          [JStr ''0xb61d27f6'',
           (case contractAddress a of None \<Rightarrow> JUndefined | Some ca \<Rightarrow> JStr ca),
           JInt 0, JStr innerCalldata])
      else Inl (UnsupportedAssetTypeForSettlement (assetType a)))"

definition hashUserOp :: "prims \<Rightarrow> UserOperation \<Rightarrow> int \<Rightarrow> error + string" where
  "hashUserOp P userOp cid =
     ebind (keccak256 P (Inr (initCode userOp))) (\<lambda>initHash.
     ebind (keccak256 P (Inr (callData userOp))) (\<lambda>callHash.
     ebind (keccak256 P (Inr (paymasterAndData userOp))) (\<lambda>pmHash.
     ebind (abiEncode [''address'', ''uint256'', ''bytes32'', ''bytes32'', ''uint256'', ''uint256'',
                       ''uint256'', ''uint256'', ''uint256'', ''bytes32'']
              [JStr (sender userOp), JInt (uo_nonce userOp), JStr initHash, JStr callHash,
               JInt (callGasLimit userOp), JInt (verificationGasLimit userOp),
               JInt (preVerificationGas userOp), JInt (maxFeePerGas userOp),
               JInt (maxPriorityFeePerGas userOp), JStr pmHash]) (\<lambda>packed.
     ebind (keccak256 P (Inr packed)) (\<lambda>userOpHash.
     ebind (abiEncode [''bytes32'', ''address'', ''uint256'']
              [JStr userOpHash, JStr ''0x5FF137D4b0FDCD49DcA30c7CF57E578a026d2789'', JInt cid])
       (\<lambda>final.
     keccak256 P (Inr final)))))))"

text \<open>\<open>userSig + ccmSig.slice(2)\<close>; an absent user signature concatenates as \<open>undefined\<close>.\<close>

definition combineSignatures :: "string option \<Rightarrow> string \<Rightarrow> string" where
  "combineSignatures userSig ccmSig =
     (case userSig of None \<Rightarrow> ''undefined'' | Some u \<Rightarrow> u) @ drop 2 ccmSig"

definition generateSettlementUserOp :: "prims \<Rightarrow> CCM \<Rightarrow> ResourceLock \<Rightarrow> error + UserOperation" where
  "generateSettlementUserOp P c lock =
     ebind (encodeTransferCalldata (asset lock) (recipient (fulfillmentCondition lock)) (amount lock))
       (\<lambda>transferCalldata.
     let userOp = \<lparr> sender = owner lock, uo_nonce = nonce lock, initCode = ''0x'',
                     callData = transferCalldata, callGasLimit = 100000,
                     verificationGasLimit = 100000, preVerificationGas = 21000,
                     maxFeePerGas = 1000000000, maxPriorityFeePerGas = 1000000000,
                     paymasterAndData = ''0x'', uo_signature = ''0x'' \<rparr>
     in ebind (hashUserOp P userOp (chainId (asset lock))) (\<lambda>userOpHash.
        ebind (signHash P userOpHash (privateKey (state c))) (\<lambda>ccmSig.
        Inr (userOp\<lparr>uo_signature := combineSignatures (userSignature lock) ccmSig\<rparr>))))"

subsection \<open>verifyFulfillment\<close>

definition verifyFulfillmentProof :: "ResourceLock \<Rightarrow> FulfillmentProof \<Rightarrow> error option" where
  "verifyFulfillmentProof lock proof =
     (if transactionHash proof = [] \<or> length (transactionHash proof) \<noteq> 66
        then Some InvalidTransactionHash
      else if blockHash proof = [] \<or> length (blockHash proof) \<noteq> 66
        then Some InvalidBlockHash
      else None)"

text \<open>The part of \<open>verifyFulfillment\<close> after the proof is accepted.\<close>

definition verifyFulfillment_settle ::
  "prims \<Rightarrow> CCM \<Rightarrow> int \<Rightarrow> string \<Rightarrow> ResourceLock \<Rightarrow> (error + FulfillLockResponse) \<times> CCM" where
  "verifyFulfillment_settle P c now key lock =
     (let lock1 = lock\<lparr>status := FULFILLED\<rparr>;
          c1 = locks_set (locks_set c key lock1) (lock_id lock1) lock1
      in case generateSettlementUserOp P c1 lock1 of Inl e \<Rightarrow> (Inl e, c1) | Inr userOp \<Rightarrow>
         case generateCCMAttestation P c1 now lock1 of Inl e \<Rightarrow> (Inl e, c1) | Inr att \<Rightarrow>
         case generateCommitment P c1 lock1 att of Inl e \<Rightarrow> (Inl e, c1) | Inr com \<Rightarrow>
         (Inr \<lparr> settlementUserOp = userOp, fl_commitment = com \<rparr>, c1))"

text \<open>The lazy transition of an expired lock.\<close>

definition verifyFulfillment_expire :: "CCM \<Rightarrow> string \<Rightarrow> ResourceLock \<Rightarrow> CCM" where
  "verifyFulfillment_expire c key lock =
     (let lock1 = lock\<lparr>status := EXPIRED\<rparr>
      in locks_set (locks_set c key lock1) (lock_id lock1) lock1)"

definition verifyFulfillment ::
  "prims \<Rightarrow> CCM \<Rightarrow> int \<Rightarrow> FulfillLockRequest \<Rightarrow> (error + FulfillLockResponse) \<times> CCM" where
  "verifyFulfillment P c now request =
     (case map_of (locks (state c)) (fl_lockId request) of
        None \<Rightarrow> (Inl LockNotFound, c)
      | Some lock \<Rightarrow>
          if status lock \<noteq> ACTIVE then (Inl (InvalidLockStatusForFulfillment (status lock)), c)
          else if now > expiresAt lock then
            (Inl LockExpired, verifyFulfillment_expire c (fl_lockId request) lock)
          else case verifyFulfillmentProof lock (fulfillmentProof request) of
            Some e \<Rightarrow> (Inl e, c)
          | None \<Rightarrow> verifyFulfillment_settle P c now (fl_lockId request) lock)"

subsection \<open>cancelLock\<close>

text \<open>The argument of \<open>keccak256\<close> for the cancellation message, and the message.\<close>

definition cancelMessage_encoded :: "string \<Rightarrow> error + string" where
  "cancelMessage_encoded lockId = abiEncode [''bytes32'', ''string''] [JStr lockId, JStr ''CANCEL'']"

definition cancelMessage :: "prims \<Rightarrow> string \<Rightarrow> error + string" where
  "cancelMessage P lockId = ebind (cancelMessage_encoded lockId) (\<lambda>enc. keccak256 P (Inr enc))"

text \<open>The attestation that \<open>cancelLock\<close> returns.\<close>

definition cancelLock_attest ::
  "prims \<Rightarrow> CCM \<Rightarrow> int \<Rightarrow> string \<Rightarrow> string \<Rightarrow> error + AppAttestation" where
  "cancelLock_attest P c3 now lockId msg =
     ebind (abiEncode [''bytes32'', ''uint8''] [JStr lockId, JStr ''CANCELLED'']) (\<lambda>enc.
     ebind (keccak256 P (Inr enc)) (\<lambda>dh.
     ebind (signHash P msg (privateKey (state c3))) (\<lambda>sg.
     Inr \<lparr> app_enclaveId = enclaveId (state c3), operation = ''CANCEL'',
           app_timestamp = now, dataHash = dh, app_signature = sg \<rparr>)))"

text \<open>The part of \<open>cancelLock\<close> after the signer is accepted.\<close>

definition cancelLock_commit ::
  "prims \<Rightarrow> CCM \<Rightarrow> int \<Rightarrow> string \<Rightarrow> ResourceLock \<Rightarrow> string \<Rightarrow> (error + AppAttestation) \<times> CCM" where
  "cancelLock_commit P c now lockId lock msg =
     (let c1 = locks_set c lockId (lock\<lparr>status := CANCELLED\<rparr>)
      in case removeLeaf P (lockMerkleTree c1) lockId of
           (Some e, tree) \<Rightarrow> (Inl e, tree_set c1 tree)
         | (None, tree) \<Rightarrow>
             (let c3 = stateRoot_set (tree_set c1 tree) (getRoot tree)
              in (cancelLock_attest P c3 now lockId msg, c3)))"

definition cancelLock ::
  "prims \<Rightarrow> CCM \<Rightarrow> int \<Rightarrow> string \<Rightarrow> string \<Rightarrow> (error + AppAttestation) \<times> CCM" where
  "cancelLock P c now lockId userSig =
     (case map_of (locks (state c)) lockId of
        None \<Rightarrow> (Inl LockNotFound, c)
      | Some lock \<Rightarrow>
          if status lock \<noteq> ACTIVE \<and> status lock \<noteq> PENDING
            then (Inl (CannotCancelLockInStatus (status lock)), c)
          else case cancelMessage P lockId of Inl e \<Rightarrow> (Inl e, c) | Inr msg \<Rightarrow>
               case recoverAddress P msg userSig of Inl e \<Rightarrow> (Inl e, c) | Inr signer \<Rightarrow>
               if toLowerCase signer \<noteq> toLowerCase (owner lock)
                 then (Inl InvalidCancellationSignature, c)
               else cancelLock_commit P c now lockId lock msg)"

subsection \<open>Queries and maintenance\<close>

definition getLock :: "CCM \<Rightarrow> string \<Rightarrow> ResourceLock option" where
  "getLock c lockId = map_of (locks (state c)) lockId"

definition getStateRoot :: "CCM \<Rightarrow> string" where
  "getStateRoot c = stateRoot (state c)"

text \<open>
  The loop of \<open>cleanupExpiredLocks\<close> over the entries of the map, in order. It returns the
  exception of \<open>removeLeaf\<close>, if one was thrown, the counter and the enclave.
\<close>

fun cleanup_loop ::
  "prims \<Rightarrow> int \<Rightarrow> (string \<times> ResourceLock) list \<Rightarrow> CCM \<Rightarrow> nat \<Rightarrow> error option \<times> nat \<times> CCM" where
  "cleanup_loop P now [] c cleaned = (None, cleaned, c)"
| "cleanup_loop P now ((lockId, lock) # rest) c cleaned =
     (if status lock = ACTIVE \<and> now > expiresAt lock then
        (case removeLeaf P (lockMerkleTree c) lockId of
           (Some e, tree) \<Rightarrow>
             (Some e, cleaned, tree_set (locks_set c lockId (lock\<lparr>status := EXPIRED\<rparr>)) tree)
         | (None, tree) \<Rightarrow>
             cleanup_loop P now rest
               (tree_set (locks_set c lockId (lock\<lparr>status := EXPIRED\<rparr>)) tree) (cleaned + 1))
      else cleanup_loop P now rest c cleaned)"

definition cleanupExpiredLocks :: "prims \<Rightarrow> CCM \<Rightarrow> int \<Rightarrow> (error + nat) \<times> CCM" where
  "cleanupExpiredLocks P c now =
     (case cleanup_loop P now (locks (state c)) c 0 of
        (Some e, cleaned, c') \<Rightarrow> (Inl e, c')
      | (None, cleaned, c') \<Rightarrow>
          (Inr cleaned,
           if cleaned > 0 then stateRoot_set c' (getRoot (lockMerkleTree c')) else c'))"

subsection \<open>Runs of the enclave\<close>

text \<open>
  The operations that write, as one datatype, and the enclave after one of them (whether
  it returned or threw). A state is reachable when a sequence of operations, at any clock
  readings, leads to it from a fresh enclave.
\<close>

datatype call =
    CreateLock CreateLockRequest
  | SignLock SignLockRequest
  | VerifyFulfillment FulfillLockRequest
  | CancelLock string string
  | CleanupExpiredLocks

definition step :: "prims \<Rightarrow> CCM \<Rightarrow> int \<Rightarrow> string \<Rightarrow> call \<Rightarrow> CCM" where
  "step P c now today k = (case k of
      CreateLock r \<Rightarrow> snd (createLock P c now today r)
    | SignLock r \<Rightarrow> snd (signLock P c now today r)
    | VerifyFulfillment r \<Rightarrow> snd (verifyFulfillment P c now r)
    | CancelLock lockId sg \<Rightarrow> snd (cancelLock P c now lockId sg)
    | CleanupExpiredLocks \<Rightarrow> snd (cleanupExpiredLocks P c now))"

inductive reachable :: "prims \<Rightarrow> CCM \<Rightarrow> bool" for P :: prims where
  fresh: "reachable P (CCM_new cfg privKey pubKey eid boot)"
| after: "reachable P c \<Longrightarrow> reachable P (step P c now today k)"


subsection \<open>Invariants of the lock map\<close>

text \<open>
  Every entry of the lock map is stored under its own id and reserves a positive amount,
  and no key occurs twice (the association list is a \<open>Map\<close>).
\<close>

definition locks_ok :: "CCM \<Rightarrow> bool" where
  "locks_ok c =
     (list_all (\<lambda>(k, l). lock_id l = k \<and> 0 < amount l) (locks (state c))
      \<and> distinct (map fst (locks (state c))))"

text \<open>The status of the lock stored under a key, if there is one.\<close>

definition status_at :: "CCM \<Rightarrow> string \<Rightarrow> LockStatus option" where
  "status_at c k = map_option status (map_of (locks (state c)) k)"

section \<open>A concrete instance for evaluation\<close>

text \<open>
  The theorems below that run the enclave on explicit inputs need functions in the place of
  the library primitives. \<open>demo_keccak\<close> is a 32-byte checksum (every byte of the digest
  is the sum of the input bytes plus the input length, modulo 256); \<open>demo_prims\<close> signs
  every hash with \<open>(r, s, recovery) = (1, 2, 0)\<close> and recovers a public key that depends
  on the recovery bit of the signature only. They stand for Keccak-256 and secp256k1 in
  evaluations; no general theorem depends on them.
\<close>

definition demo_keccak :: "bytes \<Rightarrow> bytes" where
  "demo_keccak bs = replicate 32 ((sum_list bs + int (length bs)) mod 256)"

definition demo_prims :: prims where
  "demo_prims =
     \<lparr> keccak_256 = demo_keccak,
       secp_sign = (\<lambda>h k. Some (1, 2, 0)),
       secp_recover = (\<lambda>r s y h. Some (replicate 64 y)) \<rparr>"

definition demo_native :: AssetIdentifier where
  "demo_native = \<lparr> chainId = 1, assetType = native, contractAddress = None, tokenId = None \<rparr>"

definition demo_usdc :: AssetIdentifier where
  "demo_usdc =
     \<lparr> chainId = 1, assetType = erc20,
       contractAddress = Some ''0xA0b86991c6218b36c1d19D4a2e9Eb0cE3606eB48'', tokenId = None \<rparr>"

definition demo_recipient :: string where
  "demo_recipient = ''0x1111111111111111111111111111111111111111''"

definition demo_leaf1 :: string where
  "demo_leaf1 = ''0x0101010101010101010101010101010101010101010101010101010101010101''"

definition demo_leaf2 :: string where
  "demo_leaf2 = ''0x0202020202020202020202020202020202020202020202020202020202020202''"

definition demo_leaf3 :: string where
  "demo_leaf3 = ''0x0303030303030303030303030303030303030303030303030303030303030303''"

definition demo_tree :: MerkleTree where
  "demo_tree =
     \<lparr> leaves = [demo_leaf1, demo_leaf2, demo_leaf3],
       layers =
         [[demo_leaf1, demo_leaf2, demo_leaf3],
          [''0xa0a0a0a0a0a0a0a0a0a0a0a0a0a0a0a0a0a0a0a0a0a0a0a0a0a0a0a0a0a0a0a0'',
           ''0x0000000000000000000000000000000000000000000000000000000000000000''],
          [''0x4040404040404040404040404040404040404040404040404040404040404040'']] \<rparr>"


text \<open>
  A run of the enclave under \<open>demo_prims\<close>: a fresh enclave with the default
  configuration at time 1000, a lock of 1000000000 units of an ERC-20 token for 300
  seconds, and its signature. The owner is the address that \<open>demo_prims\<close> recovers from a
  signature whose last byte is \<open>1b\<close>; a signature ending in \<open>1c\<close> recovers another address.
\<close>

definition demo_today :: string where
  "demo_today = ''2026-01-01''"

definition demo_owner :: string where
  "demo_owner = ''0x4040404040404040404040404040404040404040''"

definition demo_c0 :: CCM where
  "demo_c0 =
     CCM_new DEFAULT_CONFIG
       ''0x0707070707070707070707070707070707070707070707070707070707070707''
       ''0x0909090909090909090909090909090909090909''
       ''0xeeeeeeeeeeeeeeeeeeeeeeeeeeeeeeeeeeeeeeeeeeeeeeeeeeeeeeeeeeeeeeee'' 1000"

definition demo_condition :: FulfillmentCondition where
  "demo_condition =
     \<lparr> targetChainId = 42161,
       targetAsset = \<lparr> chainId = 42161, assetType = native, contractAddress = None, tokenId = None \<rparr>,
       targetAmount = 500000000000000000, recipient = demo_owner, executionData = None \<rparr>"

definition demo_req :: CreateLockRequest where
  "demo_req =
     \<lparr> req_owner = demo_owner, sessionKey = demo_owner, req_asset = demo_usdc,
       req_amount = ''1000000000'', expiresIn = 300, req_fulfillmentCondition = demo_condition \<rparr>"

definition demo_sig :: string where
  "demo_sig = ''0x000000000000000000000000000000000000000000000000000000000000000100000000000000000000000000000000000000000000000000000000000000021b''"

definition demo_badsig :: string where
  "demo_badsig = ''0x000000000000000000000000000000000000000000000000000000000000000100000000000000000000000000000000000000000000000000000000000000021c''"

definition demo_lock_id :: string where
  "demo_lock_id = ''0xcbcbcbcbcbcbcbcbcbcbcbcbcbcbcbcbcbcbcbcbcbcbcbcbcbcbcbcbcbcbcbcb''"

definition demo_lock :: ResourceLock where
  "demo_lock =
     \<lparr> lock_id = demo_lock_id, owner = demo_owner, asset = demo_usdc, amount = 1000000000,
       lockedAt = 1000, expiresAt = 1300, nonce = 1, fulfillmentCondition = demo_condition,
       status = PENDING, ccmSignature = None, userSignature = None \<rparr>"

text \<open>The enclave after \<open>createLock\<close>, and after \<open>signLock\<close> at time 1010.\<close>

definition demo_pending :: CCM where
  "demo_pending =
     \<lparr> state = \<lparr> enclaveId = enclaveId (state demo_c0), privateKey = privateKey (state demo_c0),
                 publicKey = publicKey (state demo_c0), bootTime = 1000,
                 locks = [(demo_lock_id, demo_lock)], nonces = [(demo_owner, 1)],
                 stateRoot = zero_hash \<rparr>,
       config = DEFAULT_CONFIG,
       lockMerkleTree = \<lparr> leaves = [], layers = [] \<rparr>,
       dailyVolume = [] \<rparr>"

definition demo_sign_req :: SignLockRequest where
  "demo_sign_req = \<lparr> sl_lockId = demo_lock_id, sl_signature = demo_sig \<rparr>"

definition demo_bad_sign_req :: SignLockRequest where
  "demo_bad_sign_req = \<lparr> sl_lockId = demo_lock_id, sl_signature = demo_badsig \<rparr>"

definition demo_active_lock :: ResourceLock where
  "demo_active_lock =
     demo_lock\<lparr> status := ACTIVE, ccmSignature := Some demo_sig, userSignature := Some demo_sig \<rparr>"

definition demo_active :: CCM where
  "demo_active =
     \<lparr> state = \<lparr> enclaveId = enclaveId (state demo_c0), privateKey = privateKey (state demo_c0),
                 publicKey = publicKey (state demo_c0), bootTime = 1000,
                 locks = [(demo_lock_id, demo_active_lock)], nonces = [(demo_owner, 1)],
                 stateRoot = demo_lock_id \<rparr>,
       config = DEFAULT_CONFIG,
       lockMerkleTree = \<lparr> leaves = [demo_lock_id], layers = [[demo_lock_id]] \<rparr>,
       dailyVolume = [(demo_today, 1000000000)] \<rparr>"

definition demo_fulfill_req :: FulfillLockRequest where
  "demo_fulfill_req =
     \<lparr> fl_lockId = demo_lock_id,
       fulfillmentProof =
         \<lparr> transactionHash = ''0x1212121212121212121212121212121212121212121212121212121212121212'',
           blockNumber = 5,
           blockHash = ''0x3434343434343434343434343434343434343434343434343434343434343434'',
           logIndex = 0, merkleProof = None \<rparr> \<rparr>"

text \<open>The same run for an ERC-721 token.\<close>

definition demo_nft :: AssetIdentifier where
  "demo_nft =
     \<lparr> chainId = 1, assetType = erc721,
       contractAddress = Some ''0xBC4CA0EdA7647A8aB7C2061c2E118A18a936f13D'', tokenId = Some 7 \<rparr>"

definition demo_nft_req :: CreateLockRequest where
  "demo_nft_req = demo_req\<lparr> req_asset := demo_nft, req_amount := ''1'' \<rparr>"

definition demo_nft_lock_id :: string where
  "demo_nft_lock_id = ''0x2d2d2d2d2d2d2d2d2d2d2d2d2d2d2d2d2d2d2d2d2d2d2d2d2d2d2d2d2d2d2d2d''"

definition demo_nft_lock :: ResourceLock where
  "demo_nft_lock = demo_lock\<lparr> lock_id := demo_nft_lock_id, asset := demo_nft, amount := 1 \<rparr>"

definition demo_nft_pending :: CCM where
  "demo_nft_pending =
     demo_pending\<lparr> state := (state demo_pending)\<lparr> locks := [(demo_nft_lock_id, demo_nft_lock)] \<rparr> \<rparr>"

definition demo_nft_sign_req :: SignLockRequest where
  "demo_nft_sign_req = \<lparr> sl_lockId = demo_nft_lock_id, sl_signature = demo_sig \<rparr>"

definition demo_nft_active_lock :: ResourceLock where
  "demo_nft_active_lock =
     demo_nft_lock\<lparr> status := ACTIVE, ccmSignature := Some demo_sig, userSignature := Some demo_sig \<rparr>"

definition demo_nft_active :: CCM where
  "demo_nft_active =
     \<lparr> state = \<lparr> enclaveId = enclaveId (state demo_c0), privateKey = privateKey (state demo_c0),
                 publicKey = publicKey (state demo_c0), bootTime = 1000,
                 locks = [(demo_nft_lock_id, demo_nft_active_lock)], nonces = [(demo_owner, 1)],
                 stateRoot = demo_nft_lock_id \<rparr>,
       config = DEFAULT_CONFIG,
       lockMerkleTree = \<lparr> leaves = [demo_nft_lock_id], layers = [[demo_nft_lock_id]] \<rparr>,
       dailyVolume = [(demo_today, 1)] \<rparr>"

definition demo_nft_fulfill_req :: FulfillLockRequest where
  "demo_nft_fulfill_req = demo_fulfill_req\<lparr> fl_lockId := demo_nft_lock_id \<rparr>"

text \<open>A request whose token contract is not hexadecimal.\<close>

definition demo_bad_asset_req :: CreateLockRequest where
  "demo_bad_asset_req = demo_req\<lparr> req_asset := demo_usdc\<lparr> contractAddress := Some ''0xzz'' \<rparr> \<rparr>"

definition demo_after_bad :: CCM where
  "demo_after_bad = nonces_set demo_c0 demo_owner 1"

section \<open>ABI encoding: what the encoder leaves out\<close>

lemma abiEncode_Cons:
  "abiEncode_loop (ty # tys) (v # vs) enc =
     ebind (abiEncode_value ty v) (\<lambda>chunk. abiEncode_loop tys vs (enc @ chunk))"
  by simp

lemma abiEncode_value_address:
  "abiEncode_value ''address'' (JStr s) = Inr (padStart 64 CHR ''0'' (toLowerCase (drop 2 s)))"
  by (simp add: abiEncode_value_def as_string_def ebind_def)

lemma abiEncode_value_uint256:
  "abiEncode_value ''uint256'' (JInt n) = Inr (padStart 64 CHR ''0'' (toString16 n))"
  by (simp add: abiEncode_value_def BigInt_js_def ebind_def)

lemma abiEncode_value_bytes32:
  "abiEncode_value ''bytes32'' (JStr s) = Inr (padStart 64 CHR ''0'' (drop 2 s))"
  by (simp add: abiEncode_value_def as_string_def ebind_def)

lemma abiEncode_value_bytes:
  "abiEncode_value ''bytes'' (JStr s) =
     Inr (padStart 64 CHR ''0'' (half_toString16 (length (drop 2 s)))
          @ padEnd (((length (drop 2 s) + 63) div 64) * 64) CHR ''0'' (drop 2 s))"
  by (simp add: abiEncode_value_def as_string_def ebind_def Let_def)

text \<open>The type names \<open>bytes4\<close>, \<open>uint8\<close> and \<open>string\<close> match no branch: nothing is appended.\<close>

lemma abiEncode_value_bytes4: "abiEncode_value ''bytes4'' v = Inr []"
  by (simp add: abiEncode_value_def)

lemma abiEncode_value_uint8: "abiEncode_value ''uint8'' v = Inr []"
  by (simp add: abiEncode_value_def)

lemma abiEncode_value_string: "abiEncode_value ''string'' v = Inr []"
  by (simp add: abiEncode_value_def)

lemmas abiEncode_values =
  abiEncode_value_address abiEncode_value_uint256 abiEncode_value_bytes32 abiEncode_value_bytes
  abiEncode_value_bytes4 abiEncode_value_uint8 abiEncode_value_string

lemma ebind_Inr [simp]: "ebind (Inr x) f = f x"
  by (simp add: ebind_def)

lemma ebind_Inl [simp]: "ebind (Inl e) f = Inl e"
  by (simp add: ebind_def)

lemma encodeTransferCalldata_native:
  "assetType a = native \<Longrightarrow>
   encodeTransferCalldata a rcpt amt =
     Inr (''0x'' @ padStart 64 CHR ''0'' (toLowerCase (drop 2 rcpt))
          @ padStart 64 CHR ''0'' (toString16 amt) @ padStart 64 CHR ''0'' ''0'')"
  by (simp add: encodeTransferCalldata_def abiEncode_def abiEncode_values half_toString16_def
      hex_of_int.simps [of 0] hexdigit_def padEnd_def)

lemma hashAsset_encoded_eq:
  "hashAsset_encoded a =
     Inr (''0x'' @ padStart 64 CHR ''0'' (toString16 (chainId a))
          @ padStart 64 CHR ''0'' (toLowerCase (drop 2 (contract_or_zero a)))
          @ padStart 64 CHR ''0'' (toString16 (tokenId_or_zero a)))"
  by (simp add: hashAsset_encoded_def abiEncode_def abiEncode_values)

lemma hashAsset_ignores_assetType: "hashAsset P (a\<lparr>assetType := t\<rparr>) = hashAsset P a"
  by (simp add: hashAsset_def hashAsset_encoded_eq contract_or_zero_def tokenId_or_zero_def)

lemma cancelMessage_encoded_eq:
  "cancelMessage_encoded lockId = Inr (''0x'' @ padStart 64 CHR ''0'' (drop 2 lockId))"
  by (simp add: cancelMessage_encoded_def abiEncode_def abiEncode_values)

lemma cancelMessage_eq:
  "cancelMessage P lockId = keccak256 P (Inr (''0x'' @ padStart 64 CHR ''0'' (drop 2 lockId)))"
  by (simp add: cancelMessage_def cancelMessage_encoded_eq)

text \<open>
  C2. \<open>cancelLock\<close> hashes \<open>abiEncode(['bytes32', 'string'], [lockId, 'CANCEL'])\<close>. The
  encoder has no branch for \<open>string\<close>, so the string that is hashed is the 32-byte word of
  the lock id alone: for the lock id \<open>0xabab...ab\<close> the pre-image of the cancellation
  message is that lock id, 32 bytes, and the text CANCEL is not part of it.
\<close>

theorem cancelMessage_preimage_is_lockId:
  "cancelMessage_encoded ''0xabababababababababababababababababababababababababababababababab''
     = Inr ''0xabababababababababababababababababababababababababababababababab''"
  by code_simp

text \<open>
  C3. The call data of the settlement operation, for a native asset and for an ERC-20
  asset (recipient \<open>0x11..11\<close>, amount 1000000000): the encoder has no branch for
  \<open>bytes4\<close>, so neither selector is written, and the call data begins with the twelve zero
  bytes that pad the first address.
\<close>

theorem callData_lacks_selector:
  "encodeTransferCalldata demo_native demo_recipient 1000000000 =
     Inr ''0x0000000000000000000000001111111111111111111111111111111111111111000000000000000000000000000000000000000000000000000000003b9aca000000000000000000000000000000000000000000000000000000000000000000''
   \<and> encodeTransferCalldata demo_usdc demo_recipient 1000000000 =
     Inr ''0x000000000000000000000000a0b86991c6218b36c1d19d4a2e9eb0ce3606eb48000000000000000000000000000000000000000000000000000000000000000000000000000000000000000000000000000000000000000000000000000000400000000000000000000000001111111111111111111111111111111111111111000000000000000000000000000000000000000000000000000000003b9aca00''"
  by (rule conjI; code_simp)

text \<open>
  C4. The string that \<open>hashAsset\<close> hashes, for the ERC-20 asset of chain 1 at
  \<open>0xA0b8...eB48\<close>: three words (chain id, contract, token id), 96 bytes. The encoder has
  no branch for \<open>uint8\<close>, so the word of the asset type is missing, and the same string is
  hashed when the asset type is ERC-721.
\<close>

theorem hashAsset_preimage_lacks_kind:
  "hashAsset_encoded demo_usdc =
     Inr ''0x0000000000000000000000000000000000000000000000000000000000000001000000000000000000000000a0b86991c6218b36c1d19d4a2e9eb0ce3606eb480000000000000000000000000000000000000000000000000000000000000000''
   \<and> hashAsset_encoded (demo_usdc\<lparr>assetType := erc721\<rparr>) = hashAsset_encoded demo_usdc
   \<and> length ''0000000000000000000000000000000000000000000000000000000000000001000000000000000000000000a0b86991c6218b36c1d19d4a2e9eb0ce3606eb480000000000000000000000000000000000000000000000000000000000000000'' = 2 * 96"
  by (intro conjI; code_simp)

text \<open>
  C5. A tree of three leaves under \<open>demo_prims\<close>. \<open>buildTree\<close> pairs the third leaf with
  itself, \<open>getProof 2\<close> has no sibling to push on the first level and returns one element
  for a leaf two levels below the root, and \<open>verifyProof\<close> rejects the proof of the third
  leaf, while it accepts the proof of the first.
\<close>

theorem verifyProof_rejects_last_of_three:
  "MerkleTree_new demo_prims [demo_leaf1, demo_leaf2, demo_leaf3] = (None, demo_tree)
   \<and> getProof demo_tree 2 = [''0xa0a0a0a0a0a0a0a0a0a0a0a0a0a0a0a0a0a0a0a0a0a0a0a0a0a0a0a0a0a0a0a0'']
   \<and> verifyProof demo_prims demo_leaf3 (getProof demo_tree 2) (getRoot demo_tree) = Inr False
   \<and> verifyProof demo_prims demo_leaf1 (getProof demo_tree 0) (getRoot demo_tree) = Inr True"
  by (intro conjI; code_simp)


section \<open>Frame conditions and invariants of the operations\<close>

lemma locks_set_simps [simp]:
  "locks (state (locks_set c k l)) = AList.update k l (locks (state c))"
  "nonces (state (locks_set c k l)) = nonces (state c)"
  "stateRoot (state (locks_set c k l)) = stateRoot (state c)"
  "enclaveId (state (locks_set c k l)) = enclaveId (state c)"
  "privateKey (state (locks_set c k l)) = privateKey (state c)"
  "lockMerkleTree (locks_set c k l) = lockMerkleTree c"
  "dailyVolume (locks_set c k l) = dailyVolume c"
  "config (locks_set c k l) = config c"
  by (simp_all add: locks_set_def)

lemma tree_set_simps [simp]:
  "state (tree_set c t) = state c"
  "lockMerkleTree (tree_set c t) = t"
  "dailyVolume (tree_set c t) = dailyVolume c"
  "config (tree_set c t) = config c"
  by (simp_all add: tree_set_def)

lemma stateRoot_set_simps [simp]:
  "locks (state (stateRoot_set c r)) = locks (state c)"
  "nonces (state (stateRoot_set c r)) = nonces (state c)"
  "stateRoot (state (stateRoot_set c r)) = r"
  "enclaveId (state (stateRoot_set c r)) = enclaveId (state c)"
  "privateKey (state (stateRoot_set c r)) = privateKey (state c)"
  "lockMerkleTree (stateRoot_set c r) = lockMerkleTree c"
  "dailyVolume (stateRoot_set c r) = dailyVolume c"
  "config (stateRoot_set c r) = config c"
  by (simp_all add: stateRoot_set_def)

lemma dailyVolume_set_simps [simp]:
  "state (dailyVolume_set c d v) = state c"
  "lockMerkleTree (dailyVolume_set c d v) = lockMerkleTree c"
  "dailyVolume (dailyVolume_set c d v) = AList.update d v (dailyVolume c)"
  "config (dailyVolume_set c d v) = config c"
  by (simp_all add: dailyVolume_set_def)

lemma nonces_set_simps [simp]:
  "locks (state (nonces_set c k n)) = locks (state c)"
  "nonces (state (nonces_set c k n)) = AList.update k n (nonces (state c))"
  "stateRoot (state (nonces_set c k n)) = stateRoot (state c)"
  "enclaveId (state (nonces_set c k n)) = enclaveId (state c)"
  "privateKey (state (nonces_set c k n)) = privateKey (state c)"
  "lockMerkleTree (nonces_set c k n) = lockMerkleTree c"
  "dailyVolume (nonces_set c k n) = dailyVolume c"
  "config (nonces_set c k n) = config c"
  by (simp_all add: nonces_set_def)

lemma map_of_update_if:
  "map_of (AList.update k' v al) k = (if k = k' then Some v else map_of al k)"
  by (simp add: AList.update_conv')

lemma volume_on_frame: "dailyVolume c' = dailyVolume c \<Longrightarrow> volume_on c' d = volume_on c d"
  by (simp add: volume_on_def)

lemma volume_on_dailyVolume_set:
  "volume_on (dailyVolume_set c t v) d = (if d = t then v else volume_on c d)"
  by (simp add: volume_on_def map_of_update_if)

lemma status_at_frame: "locks (state c') = locks (state c) \<Longrightarrow> status_at c' k = status_at c k"
  by (simp add: status_at_def)

lemma status_at_locks_set:
  "status_at (locks_set c k' l) k = (if k = k' then Some (status l) else status_at c k)"
  by (simp add: status_at_def map_of_update_if)

lemma locks_okD:
  assumes "locks_ok c" and "map_of (locks (state c)) k = Some l"
  shows "lock_id l = k" and "0 < amount l"
proof -
  from assms(2) have "(k, l) \<in> set (locks (state c))" by (rule map_of_SomeD)
  with assms(1) show "lock_id l = k" and "0 < amount l"
    by (auto simp: locks_ok_def list_all_iff)
qed

lemma list_all_update:
  "list_all Q al \<Longrightarrow> Q (k, v) \<Longrightarrow> list_all Q (AList.update k v al)"
  by (induction al) auto

lemma locks_ok_locks_set:
  "locks_ok c \<Longrightarrow> lock_id l = k \<Longrightarrow> 0 < amount l \<Longrightarrow> locks_ok (locks_set c k l)"
  by (simp add: locks_ok_def list_all_update AList.distinct_update)

lemma locks_ok_frame:
  "locks_ok c \<Longrightarrow> locks (state c') = locks (state c) \<Longrightarrow> locks_ok c'"
  by (simp add: locks_ok_def)

lemma locks_ok_update:
  assumes "locks_ok c" and "map_of (locks (state c)) k = Some l"
    and "lock_id l' = lock_id l" and "amount l' = amount l"
    and "locks (state c') = AList.update k l' (locks (state c))"
  shows "locks_ok c'"
proof -
  from locks_okD [OF assms(1,2)] assms(3,4) have "lock_id l' = k" "0 < amount l'" by simp_all
  with assms(1,5) show ?thesis
    by (simp add: locks_ok_def list_all_update AList.distinct_update)
qed

text \<open>createLock\<close>

lemma createLock_validate_amount:
  "createLock_validate c today r amt = None \<Longrightarrow> 0 < amt"
  by (auto simp: createLock_validate_def validateAmount_def split: option.splits if_splits)

lemma getNextNonce_frame:
  "locks (state (snd (getNextNonce c ownr))) = locks (state c)"
  "dailyVolume (snd (getNextNonce c ownr)) = dailyVolume c"
  "lockMerkleTree (snd (getNextNonce c ownr)) = lockMerkleTree c"
  by (simp_all add: getNextNonce_def Let_def)

lemma createLock_store_dailyVolume:
  "dailyVolume (snd (createLock_store P c now r amt n)) = dailyVolume c"
  by (simp add: createLock_store_def Let_def split: sum.splits)

lemma createLock_store_locks_ok:
  "locks_ok c \<Longrightarrow> 0 < amt \<Longrightarrow> locks_ok (snd (createLock_store P c now r amt n))"
  by (auto simp: createLock_store_def Let_def split: sum.splits intro!: locks_ok_locks_set)

lemma createLock_store_status_at:
  "status_at c k = Some PENDING \<Longrightarrow>
   status_at (snd (createLock_store P c now r amt n)) k = Some PENDING"
  by (auto simp: createLock_store_def Let_def status_at_locks_set split: sum.splits)

lemma createLock_dailyVolume:
  "dailyVolume (snd (createLock P c now today r)) = dailyVolume c"
  by (simp add: createLock_def createLock_store_dailyVolume getNextNonce_frame
      split: sum.splits option.splits prod.splits)
     (metis createLock_store_dailyVolume getNextNonce_frame(2) snd_conv)


lemma createLock_locks_ok:
  assumes "locks_ok c"
  shows "locks_ok (snd (createLock P c now today r))"
proof (cases "getNextNonce c (req_owner r)")
  case (Pair n c1)
  then have "locks_ok c1"
    using assms getNextNonce_frame(1) [of c "req_owner r"] by (simp add: locks_ok_def)
  with Pair show ?thesis
    using assms
    by (auto simp: createLock_def split: sum.splits option.splits
        dest: createLock_validate_amount intro: createLock_store_locks_ok)
qed

lemma createLock_status_at:
  assumes "status_at c k = Some PENDING"
  shows "status_at (snd (createLock P c now today r)) k = Some PENDING"
proof (cases "getNextNonce c (req_owner r)")
  case (Pair n c1)
  then have "status_at c1 k = Some PENDING"
    using assms getNextNonce_frame(1) [of c "req_owner r"] by (simp add: status_at_def)
  with Pair show ?thesis
    using assms
    by (auto simp: createLock_def split: sum.splits option.splits
        intro: createLock_store_status_at)
qed

text \<open>signLock\<close>

lemma signLock_finish_frame:
  "locks (state (snd (signLock_finish P c today l att))) = locks (state c)"
  "lockMerkleTree (snd (signLock_finish P c today l att)) = lockMerkleTree c"
  "dailyVolume (snd (signLock_finish P c today l att)) =
     AList.update today (volume_on c today + amount l) (dailyVolume c)"
  by (simp_all add: signLock_finish_def Let_def volume_on_def split: sum.splits)

lemma signLock_activate_locks:
  "lock_id l = key \<Longrightarrow>
   locks (state (snd (signLock_activate P c today key l att))) =
     AList.update key (l\<lparr>ccmSignature := Some (att_signature att), status := ACTIVE\<rparr>)
       (locks (state c))"
  by (simp add: signLock_activate_def Let_def signLock_finish_frame
      split: prod.splits option.splits)

lemma signLock_activate_dailyVolume:
  "dailyVolume (snd (signLock_activate P c today key l att)) = dailyVolume c
   \<or> dailyVolume (snd (signLock_activate P c today key l att)) =
       AList.update today (volume_on c today + amount l) (dailyVolume c)"
  by (simp add: signLock_activate_def Let_def signLock_finish_frame volume_on_def
      split: prod.splits option.splits)

lemma signLock_accept_locks:
  assumes "lock_id l = sl_lockId r" and "status l = PENDING"
  shows "\<exists>l'. lock_id l' = lock_id l \<and> amount l' = amount l \<and> status l' \<in> {PENDING, ACTIVE}
          \<and> locks (state (snd (signLock_accept P c now today r l))) =
              AList.update (sl_lockId r) l' (locks (state c))"
proof (cases "generateCCMAttestation P
                (locks_set c (sl_lockId r) (l\<lparr>userSignature := Some (sl_signature r)\<rparr>)) now
                (l\<lparr>userSignature := Some (sl_signature r)\<rparr>)")
  case (Inl e)
  then show ?thesis
    using assms
    by (intro exI [of _ "l\<lparr>userSignature := Some (sl_signature r)\<rparr>"])
       (simp add: signLock_accept_def Let_def)
next
  case (Inr att)
  then show ?thesis
    using assms
    by (intro exI [of _ "l\<lparr>userSignature := Some (sl_signature r),
                          ccmSignature := Some (att_signature att), status := ACTIVE\<rparr>"])
       (simp add: signLock_accept_def Let_def signLock_activate_locks)
qed

lemma signLock_accept_dailyVolume:
  "dailyVolume (snd (signLock_accept P c now today r l)) = dailyVolume c
   \<or> dailyVolume (snd (signLock_accept P c now today r l)) =
       AList.update today (volume_on c today + amount l) (dailyVolume c)"
  using signLock_activate_dailyVolume
    [of P "locks_set c (sl_lockId r) (l\<lparr>userSignature := Some (sl_signature r)\<rparr>)" today
        "sl_lockId r" "l\<lparr>userSignature := Some (sl_signature r)\<rparr>"]
  by (auto simp: signLock_accept_def Let_def volume_on_def split: sum.splits)

lemma signLock_dailyVolume:
  "dailyVolume (snd (signLock P c now today r)) = dailyVolume c
   \<or> (\<exists>l. map_of (locks (state c)) (sl_lockId r) = Some l \<and> status l = PENDING
          \<and> dailyVolume (snd (signLock P c now today r)) =
              AList.update today (volume_on c today + amount l) (dailyVolume c))"
  using signLock_accept_dailyVolume [of P c now today r]
  by (auto simp: signLock_def split: option.splits sum.splits)

lemma signLock_locks:
  assumes "locks_ok c"
  shows "locks (state (snd (signLock P c now today r))) = locks (state c)
   \<or> (\<exists>l l'. map_of (locks (state c)) (sl_lockId r) = Some l \<and> status l = PENDING
         \<and> lock_id l' = lock_id l \<and> amount l' = amount l \<and> status l' \<in> {PENDING, ACTIVE}
         \<and> locks (state (snd (signLock P c now today r))) =
             AList.update (sl_lockId r) l' (locks (state c)))"
proof (cases "map_of (locks (state c)) (sl_lockId r)")
  case None
  then show ?thesis by (simp add: signLock_def)
next
  case (Some l)
  then have id: "lock_id l = sl_lockId r" using assms by (rule locks_okD(1) [rotated])
  have "snd (signLock P c now today r) = c
      \<or> (status l = PENDING
          \<and> snd (signLock P c now today r) = snd (signLock_accept P c now today r l))"
    using Some by (simp add: signLock_def split: sum.splits)
  then consider (same) "snd (signLock P c now today r) = c"
    | (accept) "status l = PENDING"
        "snd (signLock P c now today r) = snd (signLock_accept P c now today r l)"
    by blast
  then show ?thesis
  proof cases
    case same
    then show ?thesis by simp
  next
    case accept
    from signLock_accept_locks [OF id accept(1), of P c now today]
    obtain l' where "lock_id l' = lock_id l" "amount l' = amount l" "status l' \<in> {PENDING, ACTIVE}"
      "locks (state (snd (signLock_accept P c now today r l))) =
         AList.update (sl_lockId r) l' (locks (state c))"
      by blast
    with Some accept show ?thesis by auto
  qed
qed

lemma signLock_locks_ok:
  assumes "locks_ok c"
  shows "locks_ok (snd (signLock P c now today r))"
  using signLock_locks [OF assms, of P now today r] assms
  by (auto intro: locks_ok_frame locks_ok_update)

lemma signLock_status_at:
  assumes "locks_ok c" and "status_at c k = Some PENDING"
  shows "status_at (snd (signLock P c now today r)) k \<in> {Some PENDING, Some ACTIVE}"
  using signLock_locks [OF assms(1), of P now today r] assms(2)
  by (auto simp: status_at_def map_of_update_if)

text \<open>verifyFulfillment\<close>

lemma verifyFulfillment_settle_frame:
  "lockMerkleTree (snd (verifyFulfillment_settle P c now key l)) = lockMerkleTree c"
  "stateRoot (state (snd (verifyFulfillment_settle P c now key l))) = stateRoot (state c)"
  "dailyVolume (snd (verifyFulfillment_settle P c now key l)) = dailyVolume c"
  "nonces (state (snd (verifyFulfillment_settle P c now key l))) = nonces (state c)"
  by (simp_all add: verifyFulfillment_settle_def Let_def split: sum.splits)

lemma verifyFulfillment_settle_locks:
  "lock_id l = key \<Longrightarrow>
   locks (state (snd (verifyFulfillment_settle P c now key l))) =
     AList.update key (l\<lparr>status := FULFILLED\<rparr>) (locks (state c))"
  by (simp add: verifyFulfillment_settle_def Let_def split: sum.splits)

lemma verifyFulfillment_expire_frame:
  "lockMerkleTree (verifyFulfillment_expire c key l) = lockMerkleTree c"
  "stateRoot (state (verifyFulfillment_expire c key l)) = stateRoot (state c)"
  "dailyVolume (verifyFulfillment_expire c key l) = dailyVolume c"
  "nonces (state (verifyFulfillment_expire c key l)) = nonces (state c)"
  by (simp_all add: verifyFulfillment_expire_def Let_def)

lemma verifyFulfillment_expire_eq:
  "lock_id l = key \<Longrightarrow> verifyFulfillment_expire c key l = locks_set c key (l\<lparr>status := EXPIRED\<rparr>)"
  by (simp add: verifyFulfillment_expire_def Let_def locks_set_def)

lemma verifyFulfillment_keeps_tree:
  "lockMerkleTree (snd (verifyFulfillment P c now r)) = lockMerkleTree c
   \<and> stateRoot (state (snd (verifyFulfillment P c now r))) = stateRoot (state c)"
  by (simp add: verifyFulfillment_def verifyFulfillment_settle_frame verifyFulfillment_expire_frame
      split: option.splits)

lemma verifyFulfillment_dailyVolume:
  "dailyVolume (snd (verifyFulfillment P c now r)) = dailyVolume c"
  by (simp add: verifyFulfillment_def verifyFulfillment_settle_frame verifyFulfillment_expire_frame
      split: option.splits)

lemma verifyFulfillment_locks:
  assumes "locks_ok c"
  shows "locks (state (snd (verifyFulfillment P c now r))) = locks (state c)
   \<or> (\<exists>l st. map_of (locks (state c)) (fl_lockId r) = Some l \<and> status l = ACTIVE
         \<and> st \<in> {EXPIRED, FULFILLED}
         \<and> locks (state (snd (verifyFulfillment P c now r))) =
             AList.update (fl_lockId r) (l\<lparr>status := st\<rparr>) (locks (state c)))"
proof (cases "map_of (locks (state c)) (fl_lockId r)")
  case None
  then show ?thesis by (simp add: verifyFulfillment_def)
next
  case (Some l)
  then have id: "lock_id l = fl_lockId r" using assms by (rule locks_okD(1) [rotated])
  show ?thesis
    using Some
    by (auto simp: verifyFulfillment_def verifyFulfillment_settle_locks [OF id]
        verifyFulfillment_expire_eq [OF id] split: option.splits)
qed

lemma verifyFulfillment_locks_ok:
  assumes "locks_ok c"
  shows "locks_ok (snd (verifyFulfillment P c now r))"
  using verifyFulfillment_locks [OF assms, of P now r] assms
  by (auto intro: locks_ok_frame elim!: locks_ok_update [rotated 4])

lemma verifyFulfillment_status_at:
  assumes "locks_ok c" and "status_at c k = Some PENDING"
  shows "status_at (snd (verifyFulfillment P c now r)) k = Some PENDING"
  using verifyFulfillment_locks [OF assms(1), of P now r] assms(2)
  by (auto simp: status_at_def map_of_update_if)


text \<open>cancelLock\<close>

lemma cancelLock_commit_frame:
  "dailyVolume (snd (cancelLock_commit P c now k l msg)) = dailyVolume c"
  "nonces (state (snd (cancelLock_commit P c now k l msg))) = nonces (state c)"
  "locks (state (snd (cancelLock_commit P c now k l msg))) =
     AList.update k (l\<lparr>status := CANCELLED\<rparr>) (locks (state c))"
  by (simp_all add: cancelLock_commit_def Let_def split: prod.splits option.splits)

lemma cancelLock_dailyVolume:
  "dailyVolume (snd (cancelLock P c now k sg)) = dailyVolume c"
  by (simp add: cancelLock_def cancelLock_commit_frame split: option.splits sum.splits)

lemma cancelLock_locks:
  "locks (state (snd (cancelLock P c now k sg))) = locks (state c)
   \<or> (\<exists>l. map_of (locks (state c)) k = Some l
         \<and> locks (state (snd (cancelLock P c now k sg))) =
             AList.update k (l\<lparr>status := CANCELLED\<rparr>) (locks (state c)))"
  by (simp add: cancelLock_def cancelLock_commit_frame split: option.splits sum.splits)

lemma cancelLock_locks_ok:
  assumes "locks_ok c"
  shows "locks_ok (snd (cancelLock P c now k sg))"
  using cancelLock_locks [of P c now k sg] assms
  by (auto intro: locks_ok_frame elim!: locks_ok_update [rotated 4])

lemma cancelLock_status_at:
  assumes "status_at c k = Some PENDING"
  shows "status_at (snd (cancelLock P c now k' sg)) k \<in> {Some PENDING, Some CANCELLED}"
  using cancelLock_locks [of P c now k' sg] assms
  by (auto simp: status_at_def map_of_update_if)

text \<open>cleanupExpiredLocks\<close>

lemma cleanup_loop_dailyVolume:
  "dailyVolume (snd (snd (cleanup_loop P now es c n))) = dailyVolume c"
  by (induction es arbitrary: c n) (auto split: prod.splits option.splits)

lemma cleanup_loop_locks_ok:
  "list_all (\<lambda>(k, l). lock_id l = k \<and> 0 < amount l) es \<Longrightarrow> locks_ok c \<Longrightarrow>
   locks_ok (snd (snd (cleanup_loop P now es c n)))"
proof (induction es arbitrary: c n)
  case Nil
  then show ?case by simp
next
  case (Cons e es)
  obtain k l where e: "e = (k, l)" by (cases e)
  from Cons.prems e have ok: "lock_id l = k" "0 < amount l"
    and rest: "list_all (\<lambda>(k, l). lock_id l = k \<and> 0 < amount l) es" by simp_all
  have upd: "locks_ok (tree_set (locks_set c k (l\<lparr>status := EXPIRED\<rparr>)) t)" for t
    using Cons.prems(2) ok
    by (auto intro: locks_ok_frame [OF locks_ok_locks_set [of c "l\<lparr>status := EXPIRED\<rparr>" k]])
  show ?case
    using Cons.IH [OF rest] Cons.prems(2) upd e
    by (auto split: prod.splits option.splits)
qed

lemma cleanup_loop_other_key:
  "\<forall>l'. (k, l') \<in> set es \<longrightarrow> status l' \<noteq> ACTIVE \<Longrightarrow>
   map_of (locks (state (snd (snd (cleanup_loop P now es c n))))) k = map_of (locks (state c)) k"
proof (induction es arbitrary: c n)
  case Nil
  then show ?case by simp
next
  case (Cons e es)
  obtain k' l where e: "e = (k', l)" by (cases e)
  from Cons.prems have rest: "\<forall>l'. (k, l') \<in> set es \<longrightarrow> status l' \<noteq> ACTIVE" by simp
  from Cons.prems e have neq: "status l = ACTIVE \<Longrightarrow> k' \<noteq> k" by auto
  show ?case
    using Cons.IH [OF rest] e neq
    by (auto simp: map_of_update_if split: prod.splits option.splits)
qed

lemma cleanupExpiredLocks_state:
  "locks (state (snd (cleanupExpiredLocks P c now))) =
     locks (state (snd (snd (cleanup_loop P now (locks (state c)) c 0))))"
  "dailyVolume (snd (cleanupExpiredLocks P c now)) =
     dailyVolume (snd (snd (cleanup_loop P now (locks (state c)) c 0)))"
  by (simp_all add: cleanupExpiredLocks_def split: prod.splits option.splits)

lemma cleanupExpiredLocks_dailyVolume:
  "dailyVolume (snd (cleanupExpiredLocks P c now)) = dailyVolume c"
  by (simp add: cleanupExpiredLocks_state cleanup_loop_dailyVolume)

lemma cleanupExpiredLocks_locks_ok:
  "locks_ok c \<Longrightarrow> locks_ok (snd (cleanupExpiredLocks P c now))"
  using cleanup_loop_locks_ok [of "locks (state c)" c P now 0]
  by (auto simp: locks_ok_def cleanupExpiredLocks_state)

lemma cleanupExpiredLocks_only_active:
  assumes "locks_ok c" and "map_of (locks (state c)) k = Some l" and "status l \<noteq> ACTIVE"
  shows "map_of (locks (state (snd (cleanupExpiredLocks P c now)))) k = Some l"
proof -
  have "l' = l" if "(k, l') \<in> set (locks (state c))" for l'
    using that assms(1,2) by (auto simp: locks_ok_def dest: map_of_is_SomeI)
  with assms(3) have "\<forall>l'. (k, l') \<in> set (locks (state c)) \<longrightarrow> status l' \<noteq> ACTIVE" by auto
  from cleanup_loop_other_key [OF this] assms(2) show ?thesis
    by (simp add: cleanupExpiredLocks_state)
qed

text \<open>Runs\<close>

lemma step_locks_ok: "locks_ok c \<Longrightarrow> locks_ok (step P c now today k)"
  by (cases k)
     (simp_all add: step_def createLock_locks_ok signLock_locks_ok verifyFulfillment_locks_ok
       cancelLock_locks_ok cleanupExpiredLocks_locks_ok)

lemma reachable_locks_ok: "reachable P c \<Longrightarrow> locks_ok c"
proof (induction rule: reachable.induct)
  case (fresh cfg privKey pubKey eid boot)
  show ?case by (simp add: locks_ok_def CCM_new_def)
next
  case (after c now today k)
  then show ?case by (simp add: step_locks_ok)
qed


section \<open>The demo run\<close>

lemma demo_createLock:
  "snd (createLock demo_prims demo_c0 1000 demo_today demo_req) = demo_pending"
  by code_simp

lemma demo_signLock:
  "snd (signLock demo_prims demo_pending 1010 demo_today demo_sign_req) = demo_active"
  by code_simp

lemma demo_nft_createLock:
  "snd (createLock demo_prims demo_c0 1000 demo_today demo_nft_req) = demo_nft_pending"
  by code_simp

lemma demo_nft_signLock:
  "snd (signLock demo_prims demo_nft_pending 1010 demo_today demo_nft_sign_req) = demo_nft_active"
  by code_simp

lemma demo_c0_reachable: "reachable demo_prims demo_c0"
  unfolding demo_c0_def by (rule reachable.fresh)

lemma demo_pending_reachable: "reachable demo_prims demo_pending"
  using reachable.after [OF demo_c0_reachable, of 1000 demo_today "CreateLock demo_req"]
  by (simp add: step_def demo_createLock)

lemma demo_active_reachable: "reachable demo_prims demo_active"
  using reachable.after [OF demo_pending_reachable, of 1010 demo_today "SignLock demo_sign_req"]
  by (simp add: step_def demo_signLock)

lemma demo_nft_active_reachable: "reachable demo_prims demo_nft_active"
proof -
  have "reachable demo_prims demo_nft_pending"
    using reachable.after [OF demo_c0_reachable, of 1000 demo_today "CreateLock demo_nft_req"]
    by (simp add: step_def demo_nft_createLock)
  from reachable.after [OF this, of 1010 demo_today "SignLock demo_nft_sign_req"]
  show ?thesis by (simp add: step_def demo_nft_signLock)
qed

section \<open>The Merkle index and the status of a lock\<close>

lemma verifyFulfillment_fulfilled:
  assumes "map_of (locks (state c)) (fl_lockId r) = Some l" and "status l = ACTIVE"
    and "lock_id l = fl_lockId r" and "now \<le> expiresAt l"
    and "verifyFulfillmentProof l (fulfillmentProof r) = None"
  shows "status_at (snd (verifyFulfillment P c now r)) (fl_lockId r) = Some FULFILLED"
  using assms
  by (simp add: verifyFulfillment_def verifyFulfillment_settle_locks status_at_def map_of_update_if)

text \<open>
  C1. A reachable enclave whose only lock is active, with its id the only leaf.
  \<open>verifyFulfillment\<close> after the expiry (time 2000) fails with \<open>LockExpired\<close> and leaves
  the lock \<open>EXPIRED\<close>; at time 1300 with a well-formed proof it leaves the lock
  \<open>FULFILLED\<close>. In both cases the id of the lock is still a leaf of the tree.
  \<open>verifyFulfillment\<close> never calls \<open>removeLeaf\<close> (lemma \<open>verifyFulfillment_keeps_tree\<close>),
  as \<open>cancelLock\<close> and \<open>cleanupExpiredLocks\<close> do.
\<close>

theorem verifyFulfillment_leaves_leaf:
  "reachable demo_prims demo_active
   \<and> status_at demo_active demo_lock_id = Some ACTIVE
   \<and> leaves (lockMerkleTree demo_active) = [demo_lock_id]
   \<and> fst (verifyFulfillment demo_prims demo_active 2000 demo_fulfill_req) = Inl LockExpired
   \<and> status_at (snd (verifyFulfillment demo_prims demo_active 2000 demo_fulfill_req)) demo_lock_id
       = Some EXPIRED
   \<and> leaves (lockMerkleTree (snd (verifyFulfillment demo_prims demo_active 2000 demo_fulfill_req)))
       = [demo_lock_id]
   \<and> status_at (snd (verifyFulfillment demo_prims demo_active 1300 demo_fulfill_req)) demo_lock_id
       = Some FULFILLED
   \<and> leaves (lockMerkleTree (snd (verifyFulfillment demo_prims demo_active 1300 demo_fulfill_req)))
       = [demo_lock_id]"
proof -
  have found: "map_of (locks (state demo_active)) (fl_lockId demo_fulfill_req) = Some demo_active_lock"
    by code_simp
  have active: "status demo_active_lock = ACTIVE" by code_simp
  have key: "lock_id demo_active_lock = fl_lockId demo_fulfill_req" by code_simp
  have time: "1300 \<le> expiresAt demo_active_lock" by code_simp
  have proof_ok: "verifyFulfillmentProof demo_active_lock (fulfillmentProof demo_fulfill_req) = None"
    by code_simp
  have id: "fl_lockId demo_fulfill_req = demo_lock_id" by (simp add: demo_fulfill_req_def)
  have tree: "leaves (lockMerkleTree demo_active) = [demo_lock_id]" by (simp add: demo_active_def)
  have a: "status_at demo_active demo_lock_id = Some ACTIVE" by code_simp
  have b: "fst (verifyFulfillment demo_prims demo_active 2000 demo_fulfill_req) = Inl LockExpired"
    by code_simp
  have c: "status_at (snd (verifyFulfillment demo_prims demo_active 2000 demo_fulfill_req))
             demo_lock_id = Some EXPIRED"
    by code_simp
  have d: "status_at (snd (verifyFulfillment demo_prims demo_active 1300 demo_fulfill_req))
             demo_lock_id = Some FULFILLED"
    using verifyFulfillment_fulfilled [OF found active key time proof_ok, of demo_prims]
    by (simp add: id)
  show ?thesis
    using demo_active_reachable a b c d by (simp add: verifyFulfillment_keeps_tree tree)
qed

section \<open>Nonces\<close>

lemma demo_bad_createLock:
  "createLock demo_prims demo_c0 1000 demo_today demo_bad_asset_req = (Inl LibraryError, demo_after_bad)"
  by code_simp

lemma demo_createLock_after_bad:
  "map_sum id (\<lambda>resp. nonce (resp_lock resp))
     (fst (createLock demo_prims demo_after_bad 1001 demo_today demo_req)) = Inr 2"
  by code_simp

text \<open>
  C6. On a fresh enclave, \<open>createLock\<close> for a token whose contract address is \<open>0xzz\<close>
  passes the five validations, takes nonce 1 for the owner and then throws when the lock
  id is hashed (\<open>hexToBytes\<close> rejects \<open>zz\<close>): the call fails, no lock is stored, and the
  owner's nonce is 1. The next \<open>createLock\<close> of the owner, which succeeds, is given nonce 2.
\<close>

theorem failed_createLock_consumes_nonce:
  "getCurrentNonce demo_c0 demo_owner = 0
   \<and> fst (createLock demo_prims demo_c0 1000 demo_today demo_bad_asset_req) = Inl LibraryError
   \<and> locks (state (snd (createLock demo_prims demo_c0 1000 demo_today demo_bad_asset_req))) = []
   \<and> getCurrentNonce (snd (createLock demo_prims demo_c0 1000 demo_today demo_bad_asset_req))
        demo_owner = 1
   \<and> map_sum id (\<lambda>resp. nonce (resp_lock resp))
        (fst (createLock demo_prims
                (snd (createLock demo_prims demo_c0 1000 demo_today demo_bad_asset_req))
                1001 demo_today demo_req)) = Inr 2"
proof -
  have a: "getCurrentNonce demo_c0 demo_owner = 0" by code_simp
  have b: "locks (state demo_after_bad) = []" by code_simp
  have c: "getCurrentNonce demo_after_bad demo_owner = 1" by code_simp
  show ?thesis
    using a b c demo_createLock_after_bad by (simp add: demo_bad_createLock)
qed

section \<open>signLock with a signature of another key\<close>

text \<open>
  C7. When the lock is pending and the signer recovered from the signature differs from
  the owner (both in lower case), \<open>signLock\<close> throws the signer-mismatch error and the
  enclave is left as it was: the lock is still the pending lock without signatures, and
  the Merkle tree, the state root and the daily volume are unchanged.
\<close>

theorem signLock_signer_mismatch:
  assumes "map_of (locks (state c)) (sl_lockId r) = Some l"
    and "status l = PENDING"
    and "signLock_recover P l (sl_signature r) = Inr signer"
    and "toLowerCase signer \<noteq> toLowerCase (owner l)"
  shows "signLock P c now today r = (Inl InvalidSignature, c)
         \<and> getLock (snd (signLock P c now today r)) (sl_lockId r) = Some l
         \<and> lockMerkleTree (snd (signLock P c now today r)) = lockMerkleTree c
         \<and> getStateRoot (snd (signLock P c now today r)) = getStateRoot c
         \<and> dailyVolume (snd (signLock P c now today r)) = dailyVolume c"
  using assms by (simp add: signLock_def getLock_def)

lemma demo_bad_recover:
  "signLock_recover demo_prims demo_lock (sl_signature demo_bad_sign_req)
     = Inr ''0x8080808080808080808080808080808080808080''"
  by code_simp

theorem signLock_signer_mismatch_witness:
  "map_of (locks (state demo_pending)) (sl_lockId demo_bad_sign_req) = Some demo_lock
   \<and> status demo_lock = PENDING
   \<and> signLock_recover demo_prims demo_lock (sl_signature demo_bad_sign_req)
       = Inr ''0x8080808080808080808080808080808080808080''
   \<and> toLowerCase ''0x8080808080808080808080808080808080808080'' \<noteq> toLowerCase (owner demo_lock)
   \<and> signLock demo_prims demo_pending 1010 demo_today demo_bad_sign_req
       = (Inl InvalidSignature, demo_pending)"
proof -
  have h1: "map_of (locks (state demo_pending)) (sl_lockId demo_bad_sign_req) = Some demo_lock"
    by code_simp
  have h2: "status demo_lock = PENDING" by code_simp
  have h4: "toLowerCase ''0x8080808080808080808080808080808080808080'' \<noteq> toLowerCase (owner demo_lock)"
    by code_simp
  from signLock_signer_mismatch [OF h1 h2 demo_bad_recover h4, of 1010 demo_today]
  show ?thesis using h1 h2 h4 demo_bad_recover by simp
qed

section \<open>The daily volume\<close>

lemma step_dailyVolume:
  assumes "locks_ok c"
  shows "volume_on c d \<le> volume_on (step P c now today k) d"
proof (cases k)
  case (SignLock r)
  from signLock_dailyVolume [of P c now today r] show ?thesis
  proof
    assume "dailyVolume (snd (signLock P c now today r)) = dailyVolume c"
    then show ?thesis by (simp add: SignLock step_def volume_on_def)
  next
    assume "\<exists>l. map_of (locks (state c)) (sl_lockId r) = Some l \<and> status l = PENDING
      \<and> dailyVolume (snd (signLock P c now today r)) =
          AList.update today (volume_on c today + amount l) (dailyVolume c)"
    then obtain l where l: "map_of (locks (state c)) (sl_lockId r) = Some l"
      and v: "dailyVolume (snd (signLock P c now today r)) =
          AList.update today (volume_on c today + amount l) (dailyVolume c)"
      by blast
    from locks_okD(2) [OF assms l] have "0 < amount l" .
    with v show ?thesis
      by (simp add: SignLock step_def volume_on_def map_of_update_if)
  qed
qed (simp_all add: step_def volume_on_def createLock_dailyVolume verifyFulfillment_dailyVolume
      cancelLock_dailyVolume cleanupExpiredLocks_dailyVolume)

lemma signLock_success_dailyVolume:
  assumes "fst (signLock P c now today r) = Inr resp"
  shows "\<exists>l. map_of (locks (state c)) (sl_lockId r) = Some l \<and> status l = PENDING
          \<and> dailyVolume (snd (signLock P c now today r)) =
              AList.update today (volume_on c today + amount l) (dailyVolume c)"
proof -
  from assms obtain l where l: "map_of (locks (state c)) (sl_lockId r) = Some l"
    and p: "status l = PENDING"
    and acc: "signLock P c now today r = signLock_accept P c now today r l"
    by (auto simp: signLock_def split: option.splits sum.splits if_splits)
  from assms acc have "dailyVolume (snd (signLock_accept P c now today r l)) =
      AList.update today (volume_on c today + amount l) (dailyVolume c)"
    by (auto simp: signLock_accept_def signLock_activate_def signLock_finish_frame Let_def
        volume_on_def split: sum.splits prod.splits option.splits)
  with l p acc show ?thesis by auto
qed

text \<open>
  C10. In every reachable state and for every date, no operation lowers the volume
  counter of that date. \<open>createLock\<close>, \<open>cancelLock\<close>, \<open>verifyFulfillment\<close> and
  \<open>cleanupExpiredLocks\<close> leave the whole volume map as it is; \<open>signLock\<close> either leaves it
  as it is or adds the amount of the pending lock it was called for to the counter of the
  current date, and a \<open>signLock\<close> that returns has added it. The amount of a lock that is
  cancelled or expires later is never subtracted.
\<close>

theorem dailyVolume_monotone:
  assumes "reachable P c"
  shows "volume_on c d \<le> volume_on (step P c now today k) d
         \<and> dailyVolume (snd (createLock P c now today cr)) = dailyVolume c
         \<and> dailyVolume (snd (cancelLock P c now lockId sg)) = dailyVolume c
         \<and> dailyVolume (snd (verifyFulfillment P c now fr)) = dailyVolume c
         \<and> dailyVolume (snd (cleanupExpiredLocks P c now)) = dailyVolume c
         \<and> (dailyVolume (snd (signLock P c now today sr)) = dailyVolume c
            \<or> (\<exists>l. map_of (locks (state c)) (sl_lockId sr) = Some l \<and> status l = PENDING
                  \<and> 0 < amount l
                  \<and> dailyVolume (snd (signLock P c now today sr)) =
                      AList.update today (volume_on c today + amount l) (dailyVolume c)))
         \<and> (\<forall>resp. fst (signLock P c now today sr) = Inr resp \<longrightarrow>
              (\<exists>l. map_of (locks (state c)) (sl_lockId sr) = Some l \<and> status l = PENDING
                  \<and> 0 < amount l
                  \<and> volume_on (snd (signLock P c now today sr)) today
                      = volume_on c today + amount l))"
proof -
  from assms have ok: "locks_ok c" by (rule reachable_locks_ok)
  have sign: "dailyVolume (snd (signLock P c now today sr)) = dailyVolume c
      \<or> (\<exists>l. map_of (locks (state c)) (sl_lockId sr) = Some l \<and> status l = PENDING
            \<and> 0 < amount l
            \<and> dailyVolume (snd (signLock P c now today sr)) =
                AList.update today (volume_on c today + amount l) (dailyVolume c))"
    using signLock_dailyVolume [of P c now today sr] locks_okD(2) [OF ok] by blast
  have succ: "\<exists>l. map_of (locks (state c)) (sl_lockId sr) = Some l \<and> status l = PENDING
            \<and> 0 < amount l
            \<and> volume_on (snd (signLock P c now today sr)) today = volume_on c today + amount l"
    if "fst (signLock P c now today sr) = Inr resp" for resp
    using signLock_success_dailyVolume [OF that] locks_okD(2) [OF ok]
    by (auto simp: volume_on_def map_of_update_if)
  show ?thesis
    using step_dailyVolume [OF ok] sign succ
    by (simp add: createLock_dailyVolume cancelLock_dailyVolume verifyFulfillment_dailyVolume
        cleanupExpiredLocks_dailyVolume)
qed

theorem dailyVolume_monotone_witness:
  "reachable demo_prims demo_pending
   \<and> volume_on demo_pending demo_today = 0
   \<and> volume_on (step demo_prims demo_pending 1010 demo_today (SignLock demo_sign_req)) demo_today
       = 1000000000
   \<and> volume_on demo_pending demo_today
       \<le> volume_on (step demo_prims demo_pending 1010 demo_today (SignLock demo_sign_req)) demo_today
   \<and> dailyVolume (snd (cancelLock demo_prims demo_pending 1010 demo_lock_id demo_sig))
       = dailyVolume demo_pending"
proof -
  have a: "volume_on demo_pending demo_today = 0" by code_simp
  have b: "volume_on demo_active demo_today = 1000000000" by code_simp
  from dailyVolume_monotone [OF demo_pending_reachable, of demo_today 1010 demo_today
      "SignLock demo_sign_req" _ demo_lock_id demo_sig]
  show ?thesis
    using demo_pending_reachable a b by (simp add: step_def demo_signLock)
qed

end
